theory Spec2Isabelle
  imports Complex_Main "HOL-Library.Log_Nat" "HOL-Library.Product_Lexorder"
    "HOL-Library.Multiset"
begin

section \<open>Data model (src/src/state.py, src/src/nodes.py)\<close>

text \<open>
  Conventions of the embedding.
  \<^item> A Python \<^verbatim>\<open>str\<close> is a \<open>string\<close> holding its UTF-8 bytes; the three non-ASCII
    characters of the source (the bullet and the cross mark) are written by their bytes.
  \<^item> A Python \<^verbatim>\<open>float\<close> is a \<open>double\<close>, an IEEE 754 binary64 value; every arithmetic
    operation rounds to the nearest value, ties to even (next section).
  \<^item> A raised \<^verbatim>\<open>Exception\<close> is the string \<^verbatim>\<open>str(e)\<close>; a fallible call returns
    \<open>exn + 'a\<close> with \<open>Inl\<close> for the exception. Only subclasses of \<^verbatim>\<open>Exception\<close> are
    modelled, which is what \<^verbatim>\<open>except Exception\<close> catches.
  \<^item> A dict whose iteration order matters (\<^verbatim>\<open>search_results\<close>) is an association list
    in insertion order.
\<close>

type_synonym exn = string

text \<open>
  A binary64 value: a finite value other than \<^verbatim>\<open>-0.0\<close> is \<open>Finite r\<close> with \<open>r\<close> its exact
  value (\<open>Finite 0\<close> is \<^verbatim>\<open>0.0\<close>); the others are \<^verbatim>\<open>-0.0\<close>, the two infinities and
  NaN. Floats arise from \<open>round_to_double\<close> and from the operations below, which return
  representable values only; a \<open>Finite r\<close> whose \<open>r\<close> is not representable stands for no
  float.
\<close>

datatype double = Finite rat | NegZero | PlusInf | MinusInf | NaN

text \<open>\<^verbatim>\<open>class ProductURLs(BaseModel)\<close>: three optional URLs, in field order.\<close>

record ProductURLs =
  amazon :: "string option"
  walmart :: "string option"
  bestbuy :: "string option"

text \<open>
  \<^verbatim>\<open>class ExtractedPrice(BaseModel)\<close>: fields \<^verbatim>\<open>price\<close>, \<^verbatim>\<open>title\<close>, \<^verbatim>\<open>availability\<close>
  (prefixed here, the extraction record below has fields of the same names).
\<close>

record ExtractedPrice =
  ep_price :: "double option"
  ep_title :: string
  ep_availability :: string

text \<open>
  An element of \<^verbatim>\<open>price_data\<close>: the dict that \<^verbatim>\<open>extract_prices\<close> appends. The keys
  \<^verbatim>\<open>platform\<close>, \<^verbatim>\<open>price\<close>, \<^verbatim>\<open>title\<close>, \<^verbatim>\<open>url\<close>, \<^verbatim>\<open>availability\<close> are always present;
  the key \<^verbatim>\<open>error\<close> is present only in a failure record (\<open>item_error = None\<close> when
  it is absent). \<open>price = None\<close> is Python's \<^verbatim>\<open>None\<close>.
\<close>

record price_item =
  platform :: string
  price :: "double option"
  title :: string
  url :: string
  availability :: string
  item_error :: "string option"

text \<open>\<^verbatim>\<open>class InsuranceState(TypedDict)\<close>, with every key present as in src/src/main.py.\<close>

record InsuranceState =
  product_query :: string
  search_results :: "(string \<times> string) list"
  price_data :: "price_item list"
  final_report :: string
  error :: "string option"
  confidence_score :: "double option"

section \<open>What lies outside the repository\<close>

text \<open>
  Everything a node does outside the repository goes through one of these. Each is a
  parameter of the model; a call either raises (\<open>Inl\<close>) or returns (\<open>Inr\<close>).
  \<^item> \<open>from_dict\<close>: \<^verbatim>\<open>MCPClient.from_dict(browserai_config)\<close>;
  \<^item> \<open>create_tools\<close>: \<^verbatim>\<open>LangChainAdapter()\<close> and \<^verbatim>\<open>await adapter.create_tools(client)\<close>;
  \<^item> \<open>create_react_agent\<close>: \<^verbatim>\<open>create_react_agent(model=llm, tools=tools, prompt=...)\<close>;
  \<^item> \<open>agent_ainvoke\<close>: \<^verbatim>\<open>await agent.ainvoke(...)\<close> followed by reading
    \<^verbatim>\<open>result['messages'][-1].content\<close>, the string the node uses;
  \<^item> \<open>urls_ainvoke\<close>, \<open>price_ainvoke\<close>: \<^verbatim>\<open>llm.with_structured_output(...)\<close> and its
    \<^verbatim>\<open>ainvoke\<close>, for \<^verbatim>\<open>ProductURLs\<close> and \<^verbatim>\<open>ExtractedPrice\<close>;
  \<^item> \<open>report_ainvoke\<close>: \<^verbatim>\<open>await report_chain.ainvoke(...)\<close> on the formatted messages,
    returning \<^verbatim>\<open>report_response.content\<close>;
  \<^item> \<open>str_title\<close>: the method \<^verbatim>\<open>str.title()\<close>, whose result follows the case tables
    of Unicode;
  \<^item> \<open>sorted_with_nan\<close>: \<^verbatim>\<open>sorted(data)\<close> on a list that holds a NaN. There \<^verbatim>\<open><\<close> is not
    an order and the language fixes no result, so the result is a parameter; on every
    other list \<^verbatim>\<open>sorted\<close> is the stable sort of the model.
\<close>

record ('c, 't, 'a) services =
  from_dict :: "exn + 'c"
  create_tools :: "'c \<Rightarrow> exn + 't"
  create_react_agent :: "'t \<Rightarrow> string \<Rightarrow> exn + 'a"
  agent_ainvoke :: "'a \<Rightarrow> string \<Rightarrow> exn + string"
  urls_ainvoke :: "string \<Rightarrow> exn + ProductURLs"
  price_ainvoke :: "string \<Rightarrow> exn + ExtractedPrice"
  report_ainvoke :: "(string \<times> string) list \<Rightarrow> exn + string"
  str_title :: "string \<Rightarrow> string"
  sorted_with_nan :: "double list \<Rightarrow> double list"

text \<open>
  The external calls a node makes, in order. A call is recorded when it is made, whether
  it returns or raises.
\<close>

datatype call =
    From_Dict
  | Create_Tools
  | Create_React_Agent string
  | Agent_Ainvoke string
  | Structured_Ainvoke string
  | Report_Ainvoke "(string \<times> string) list"

section \<open>Python floats and the library functions used by the nodes\<close>

subsection \<open>Rounding to binary64\<close>

text \<open>Rounding a rational to the nearest integer, ties to the even one.\<close>

definition round_half_even :: "rat \<Rightarrow> int" where
  "round_half_even x =
     (let f = \<lfloor>x\<rfloor>; d = x - of_int f
      in if d < 1 / 2 then f else if 1 / 2 < d then f + 1
         else if even f then f else f + 1)"

text \<open>For \<open>0 < x\<close>, the integer \<open>k\<close> with \<open>2 ^ k \<le> x < 2 ^ (k + 1)\<close>.\<close>

definition ilog2 :: "rat \<Rightarrow> int" where
  "ilog2 x = (if 1 \<le> x then bitlen \<lfloor>x\<rfloor> - 1 else - bitlen (\<lceil>1 / x\<rceil> - 1))"

definition pow2 :: "int \<Rightarrow> rat" where
  "pow2 e = (if 0 \<le> e then 2 ^ nat e else 1 / 2 ^ nat (- e))"

text \<open>
  The binary64 value nearest to a rational, ties to even: 53 significant bits, the
  spacing of the subnormal numbers below \<open>2 ^ - 1022\<close>, an infinity from
  \<open>2 ^ 1024 - 2 ^ 970\<close> on, and a zero that keeps the sign where a non-zero value rounds to
  zero. This is the value of a decimal literal, of \<^verbatim>\<open>float(n)\<close> for an integer, and of
  each arithmetic operation applied to the exact result.
\<close>

definition round_to_double :: "rat \<Rightarrow> double" where
  "round_to_double x =
     (if x = 0 then Finite 0
      else let e = max (ilog2 \<bar>x\<bar>) (- 1022) - 52;
               m = round_half_even (\<bar>x\<bar> / pow2 e);
               v = of_int m * pow2 e
           in if m = 0 then (if x < 0 then NegZero else Finite 0)
              else if 2 ^ 1024 \<le> v then (if x < 0 then MinusInf else PlusInf)
              else Finite (if x < 0 then - v else v))"

subsection \<open>Comparison and arithmetic\<close>

text \<open>
  The order of the values that are not NaN; \<^verbatim>\<open>-0.0\<close> and \<^verbatim>\<open>0.0\<close> are equal in it. A
  comparison with NaN is false.
\<close>

fun rank :: "double \<Rightarrow> int \<times> rat" where
  "rank MinusInf = (- 1, 0)"
| "rank (Finite r) = (0, r)"
| "rank NegZero = (0, 0)"
| "rank PlusInf = (1, 0)"
| "rank NaN = (2, 0)"

definition flt :: "double \<Rightarrow> double \<Rightarrow> bool" where
  "flt a b = (a \<noteq> NaN \<and> b \<noteq> NaN \<and> rank a < rank b)"

text \<open>\<^verbatim>\<open>bool(x)\<close>: false for the two zeros only.\<close>

definition truthy :: "double \<Rightarrow> bool" where
  "truthy x = (x \<noteq> Finite 0 \<and> x \<noteq> NegZero)"

text \<open>\<^verbatim>\<open>a + b\<close>.\<close>

fun fadd :: "double \<Rightarrow> double \<Rightarrow> double" where
  "fadd NaN b = NaN"
| "fadd a NaN = NaN"
| "fadd PlusInf MinusInf = NaN"
| "fadd MinusInf PlusInf = NaN"
| "fadd PlusInf b = PlusInf"
| "fadd a PlusInf = PlusInf"
| "fadd MinusInf b = MinusInf"
| "fadd a MinusInf = MinusInf"
| "fadd NegZero b = b"
| "fadd a NegZero = a"
| "fadd (Finite a) (Finite b) = round_to_double (a + b)"

text \<open>
  \<^verbatim>\<open>a / c\<close> and \<^verbatim>\<open>a * c\<close> for a positive finite constant \<open>c\<close>; the node divides by
  \<^verbatim>\<open>3.0\<close> and by \<^verbatim>\<open>2\<close> and multiplies by \<^verbatim>\<open>8.0\<close> only. Zeros, infinities and NaN are
  unchanged.
\<close>

fun fdiv :: "double \<Rightarrow> rat \<Rightarrow> double" where
  "fdiv (Finite a) c = round_to_double (a / c)"
| "fdiv a c = a"

fun fmul :: "double \<Rightarrow> rat \<Rightarrow> double" where
  "fmul (Finite a) c = round_to_double (a * c)"
| "fmul a c = a"

subsection \<open>Fixed-point formatting \<^verbatim>\<open>format(x, '.Nf')\<close>\<close>

definition digit_char :: "nat \<Rightarrow> char" where
  "digit_char d = ''0123456789'' ! d"

fun digits :: "nat \<Rightarrow> string" where
  "digits n = (if n < 10 then [digit_char n] else digits (n div 10) @ [digit_char (n mod 10)])"

declare digits.simps [simp del]

text \<open>The digits of a non-negative rational rounded to \<open>p\<close> decimals, ties to even.\<close>

definition fixed_digits :: "nat \<Rightarrow> rat \<Rightarrow> string" where
  "fixed_digits p x =
     (let n = nat (round_half_even (x * 10 ^ p));
          whole = digits (n div 10 ^ p);
          frac = digits (n mod 10 ^ p)
      in whole @
         (if p = 0 then '''' else ''.'' @ replicate (p - length frac) (CHR ''0'') @ frac))"

text \<open>
  The exact value of the float is what is rounded; the sign is printed also when the
  digits are all zero.
\<close>

fun format_f :: "nat \<Rightarrow> double \<Rightarrow> string" where
  "format_f p NaN = ''nan''"
| "format_f p PlusInf = ''inf''"
| "format_f p MinusInf = ''-inf''"
| "format_f p NegZero = ''-'' @ fixed_digits p 0"
| "format_f p (Finite r) = (if r < 0 then ''-'' else '''') @ fixed_digits p \<bar>r\<bar>"

subsection \<open>\<^verbatim>\<open>sorted\<close>, \<^verbatim>\<open>statistics.median\<close>, \<^verbatim>\<open>statistics.mean\<close>, \<^verbatim>\<open>min\<close>, \<^verbatim>\<open>max\<close>\<close>

text \<open>
  \<^verbatim>\<open>sorted(data)\<close>: stable, by \<^verbatim>\<open><\<close>. On a list that holds a NaN the result is the
  parameter's, which is a rearrangement of the list as every result of \<^verbatim>\<open>sorted\<close> is; a
  parameter that returns anything else is not followed.
\<close>

definition py_sorted :: "('c, 't, 'a) services \<Rightarrow> double list \<Rightarrow> double list" where
  "py_sorted env xs =
     (if NaN \<in> set xs
      then (if mset (sorted_with_nan env xs) = mset xs then sorted_with_nan env xs else xs)
      else sort_key rank xs)"

text \<open>
  \<^verbatim>\<open>statistics.median\<close>, \<^verbatim>\<open>statistics.mean\<close>, \<^verbatim>\<open>min\<close> and \<^verbatim>\<open>max\<close> raise on an empty
  sequence; none of these exceptions is caught by the node.
\<close>

definition median :: "('c, 't, 'a) services \<Rightarrow> double list \<Rightarrow> exn + double" where
  "median env xs =
     (let data = py_sorted env xs; n = length data
      in if n = 0 then Inl ''no median for empty data''
         else if n mod 2 = 1 then Inr (data ! (n div 2))
         else (let i = n div 2 in Inr (fdiv (fadd (data ! (i - 1)) (data ! i)) 2)))"

text \<open>
  \<^verbatim>\<open>statistics.mean\<close> adds the finite values as exact fractions and rounds the quotient
  once. When some value is not finite, the total is instead the float sum of the values
  that are not finite, from \<^verbatim>\<open>0\<close> on, and the finite ones are left out.
\<close>

fun is_finite :: "double \<Rightarrow> bool" where
  "is_finite (Finite r) = True"
| "is_finite NegZero = True"
| "is_finite d = False"

fun exact_value :: "double \<Rightarrow> rat" where
  "exact_value (Finite r) = r"
| "exact_value d = 0"

definition mean :: "double list \<Rightarrow> exn + double" where
  "mean xs =
     (if length xs < 1 then Inl ''mean requires at least one data point''
      else if list_all is_finite xs
      then Inr (round_to_double (sum_list (map exact_value xs) / of_nat (length xs)))
      else Inr (fdiv (foldl fadd (Finite 0) (filter (\<lambda>x. \<not> is_finite x) xs))
                  (of_nat (length xs))))"

fun py_min :: "double list \<Rightarrow> exn + double" where
  "py_min [] = Inl ''min() arg is an empty sequence''"
| "py_min (x # xs) = Inr (fold (\<lambda>y m. if flt y m then y else m) xs x)"

fun py_max :: "double list \<Rightarrow> exn + double" where
  "py_max [] = Inl ''max() arg is an empty sequence''"
| "py_max (x # xs) = Inr (fold (\<lambda>y m. if flt m y then y else m) xs x)"

section \<open>Node 1: \<^verbatim>\<open>search_products\<close> (src/src/nodes.py, lines 36 to 110)\<close>

text \<open>Line 66: the instruction of the search agent.\<close>

definition search_agent_prompt :: string where
  "search_agent_prompt =
    ''You are a product search specialist. Find product pages on major retail platforms.\<newline>'' @
    ''            \<newline>'' @
    ''            Your goal: Find direct product pages for the given product on:\<newline>'' @
    ''            - Amazon\<newline>'' @
    ''            - Walmart  \<newline>'' @
    ''            - Best Buy\<newline>'' @
    ''            \<newline>'' @
    ''            Return the actual product page URLs, not search result pages.\<newline>'' @
    ''            Focus on finding exact matches for the product.''"

text \<open>Line 78.\<close>

definition search_prompt :: "string \<Rightarrow> string" where
  "search_prompt query =
    ''\<newline>'' @
    ''        Find product pages for: '' @ query @ ''\<newline>'' @
    ''        \<newline>'' @
    ''        Search on these platforms and return direct product page URLs:\<newline>'' @
    ''        1. Amazon - find the specific product page\<newline>'' @
    ''        2. Walmart - find the specific product page  \<newline>'' @
    ''        3. Best Buy - find the specific product page\<newline>'' @
    ''        \<newline>'' @
    ''        For each platform, provide the direct URL to the product page (not search results).\<newline>'' @
    ''        ''"

text \<open>Line 95.\<close>

definition urls_prompt :: "string \<Rightarrow> string" where
  "urls_prompt content =
    ''Extract product URLs from these search results. Only include direct product page URLs, not search results:\<newline>'' @
    ''\<newline>'' @ content"

text \<open>\<^verbatim>\<open>url_response.dict().items()\<close>: the fields in declaration order.\<close>

definition dict_items :: "ProductURLs \<Rightarrow> (string \<times> string option) list" where
  "dict_items url_response =
     [(''amazon'', amazon url_response), (''walmart'', walmart url_response),
      (''bestbuy'', bestbuy url_response)]"

text \<open>Line 98: \<^verbatim>\<open>{k: v for k, v in url_response.dict().items() if v is not None}\<close>.\<close>

definition present_urls :: "ProductURLs \<Rightarrow> (string \<times> string) list" where
  "present_urls url_response =
     concat (map (\<lambda>(k, v). case v of None \<Rightarrow> [] | Some u \<Rightarrow> [(k, u)])
                 (dict_items url_response))"

text \<open>
  Lines 44 to 98, the body of the \<^verbatim>\<open>try\<close>: the calls made, and the exception that ended
  it or the value of \<^verbatim>\<open>urls\<close>.
\<close>

definition search_body ::
  "('c, 't, 'a) services \<Rightarrow> string \<Rightarrow> call list \<times> (exn + (string \<times> string) list)" where
  "search_body env query =
     (case from_dict env of
        Inl e \<Rightarrow> ([From_Dict], Inl e)
      | Inr client \<Rightarrow>
     (case create_tools env client of
        Inl e \<Rightarrow> ([From_Dict, Create_Tools], Inl e)
      | Inr tools \<Rightarrow>
     (case create_react_agent env tools search_agent_prompt of
        Inl e \<Rightarrow> ([From_Dict, Create_Tools, Create_React_Agent search_agent_prompt], Inl e)
      | Inr agent \<Rightarrow>
     (case agent_ainvoke env agent (search_prompt query) of
        Inl e \<Rightarrow>
          ([From_Dict, Create_Tools, Create_React_Agent search_agent_prompt,
            Agent_Ainvoke (search_prompt query)], Inl e)
      | Inr content \<Rightarrow>
     (case urls_ainvoke env (urls_prompt content) of
        Inl e \<Rightarrow>
          ([From_Dict, Create_Tools, Create_React_Agent search_agent_prompt,
            Agent_Ainvoke (search_prompt query),
            Structured_Ainvoke (urls_prompt content)], Inl e)
      | Inr url_response \<Rightarrow>
          ([From_Dict, Create_Tools, Create_React_Agent search_agent_prompt,
            Agent_Ainvoke (search_prompt query),
            Structured_Ainvoke (urls_prompt content)],
           Inr (present_urls url_response)))))))"

text \<open>The node: lines 100 to 103 on success, lines 105 to 110 on an exception.\<close>

definition search_products ::
  "('c, 't, 'a) services \<Rightarrow> InsuranceState \<Rightarrow> call list \<times> InsuranceState" where
  "search_products env state =
     (case search_body env (product_query state) of
        (calls, Inr urls) \<Rightarrow> (calls, state\<lparr>search_results := urls\<rparr>)
      | (calls, Inl e) \<Rightarrow>
          (calls, state\<lparr>search_results := [],
                        error := Some (''Product search failed: '' @ e)\<rparr>))"

section \<open>Node 2: \<^verbatim>\<open>extract_prices\<close> (src/src/nodes.py, lines 112 to 218)\<close>

text \<open>Line 151: the instruction of the extraction agent.\<close>

definition extraction_agent_prompt :: string where
  "extraction_agent_prompt =
    ''You are a price extraction specialist. Extract accurate price information from product pages.\<newline>'' @
    ''            \<newline>'' @
    ''            For each URL provided:\<newline>'' @
    ''            1. Use the relevant tool to fetch the product page\<newline>'' @
    ''            2. Find the current price\<newline>'' @
    ''            3. Extract the product title\<newline>'' @
    ''            4. Note availability status\<newline>'' @
    ''            IMPORTANT:\<newline>'' @
    ''            For Amazon - use web_data_amazon_product tool\<newline>'' @
    ''            For Walmart - use web_data_walmart_product tool\<newline>'' @
    ''            For Best Buy - use web_data_bestbuy_products tool\<newline>'' @
    ''\<newline>'' @
    ''            Be precise with price extraction - look for the main selling price, not MSRP or crossed-out prices.''"

text \<open>Line 168.\<close>

definition extraction_prompt :: "string \<Rightarrow> string \<Rightarrow> string" where
  "extraction_prompt platform_name page_url =
    ''\<newline>'' @
    ''                Extract price information from this product page: '' @ page_url @
    ''\<newline>'' @
    ''                \<newline>'' @
    ''                Find and return:\<newline>'' @
    ''                1. Current price (as a number)\<newline>'' @
    ''                2. Product title\<newline>'' @
    ''                3. Availability status\<newline>'' @
    ''                \<newline>'' @
    ''                Platform: '' @ platform_name @ ''\<newline>'' @
    ''                URL: '' @ page_url @ ''\<newline>'' @
    ''                ''"

text \<open>Line 187.\<close>

definition price_prompt :: "string \<Rightarrow> string \<Rightarrow> string" where
  "price_prompt platform_name content =
    ''Extract price, title, and availability from this product page data for '' @
    platform_name @ '':\<newline>'' @ ''\<newline>'' @ content"

text \<open>Lines 190 to 196: the record of a platform whose extraction returned.\<close>

definition success_record :: "string \<Rightarrow> string \<Rightarrow> ExtractedPrice \<Rightarrow> price_item" where
  "success_record platform_name page_url structured_data =
     \<lparr>platform = platform_name, price = ep_price structured_data,
      title = ep_title structured_data, url = page_url,
      availability = ep_availability structured_data, item_error = None\<rparr>"

text \<open>Lines 199 to 206: the record of a platform whose extraction raised.\<close>

definition failure_record :: "string \<Rightarrow> string \<Rightarrow> exn \<Rightarrow> price_item" where
  "failure_record platform_name page_url e =
     \<lparr>platform = platform_name, price = None, title = '''', url = page_url,
      availability = ''Error extracting'', item_error = Some e\<rparr>"

text \<open>Lines 167 to 206: one turn of the loop, the calls it makes and the record it appends.\<close>

definition extract_platform ::
  "('c, 't, 'a) services \<Rightarrow> 'a \<Rightarrow> string \<Rightarrow> string \<Rightarrow> call list \<times> price_item" where
  "extract_platform env agent platform_name page_url =
     (case agent_ainvoke env agent (extraction_prompt platform_name page_url) of
        Inl e \<Rightarrow>
          ([Agent_Ainvoke (extraction_prompt platform_name page_url)],
           failure_record platform_name page_url e)
      | Inr content \<Rightarrow>
     (case price_ainvoke env (price_prompt platform_name content) of
        Inl e \<Rightarrow>
          ([Agent_Ainvoke (extraction_prompt platform_name page_url),
            Structured_Ainvoke (price_prompt platform_name content)],
           failure_record platform_name page_url e)
      | Inr structured_data \<Rightarrow>
          ([Agent_Ainvoke (extraction_prompt platform_name page_url),
            Structured_Ainvoke (price_prompt platform_name content)],
           success_record platform_name page_url structured_data)))"

text \<open>
  Line 166: \<^verbatim>\<open>for platform, url in search_results.items()\<close>, with the list
  \<^verbatim>\<open>price_data\<close> built so far as accumulator.
\<close>

fun extract_loop ::
  "('c, 't, 'a) services \<Rightarrow> 'a \<Rightarrow> (string \<times> string) list \<Rightarrow> price_item list
     \<Rightarrow> call list \<times> price_item list" where
  "extract_loop env agent [] pd = ([], pd)"
| "extract_loop env agent ((platform_name, page_url) # rest) pd =
     (case extract_platform env agent platform_name page_url of
        (calls, item) \<Rightarrow>
          (case extract_loop env agent rest (pd @ [item]) of
             (calls', pd') \<Rightarrow> (calls @ calls', pd')))"

text \<open>
  The node. Lines 119 to 124 return before anything is built; an exception of lines 143
  to 164 reaches the outer handler (lines 213 to 218); the loop itself cannot raise.
\<close>

definition extract_prices ::
  "('c, 't, 'a) services \<Rightarrow> InsuranceState \<Rightarrow> call list \<times> InsuranceState" where
  "extract_prices env state =
     (let results = search_results state
      in if results = []
         then ([], state\<lparr>price_data := [],
                         error := Some ''No product URLs found to extract prices from''\<rparr>)
         else
           (case from_dict env of
              Inl e \<Rightarrow>
                ([From_Dict],
                 state\<lparr>price_data := [], error := Some (''Price extraction failed: '' @ e)\<rparr>)
            | Inr client \<Rightarrow>
           (case create_tools env client of
              Inl e \<Rightarrow>
                ([From_Dict, Create_Tools],
                 state\<lparr>price_data := [], error := Some (''Price extraction failed: '' @ e)\<rparr>)
            | Inr tools \<Rightarrow>
           (case create_react_agent env tools extraction_agent_prompt of
              Inl e \<Rightarrow>
                ([From_Dict, Create_Tools, Create_React_Agent extraction_agent_prompt],
                 state\<lparr>price_data := [], error := Some (''Price extraction failed: '' @ e)\<rparr>)
            | Inr agent \<Rightarrow>
                (case extract_loop env agent results [] of
                   (calls, pd) \<Rightarrow>
                     ([From_Dict, Create_Tools, Create_React_Agent extraction_agent_prompt]
                        @ calls,
                      state\<lparr>price_data := pd\<rparr>))))))"

section \<open>Node 3: \<^verbatim>\<open>generate_report\<close> (src/src/nodes.py, lines 220 to 291)\<close>

text \<open>Line 228: the prices that are not \<^verbatim>\<open>None\<close>, in the order of \<^verbatim>\<open>price_data\<close>.\<close>

definition valid_prices :: "price_item list \<Rightarrow> double list" where
  "valid_prices pd = List.map_filter price pd"

text \<open>Line 233: the report of the branch without prices.\<close>

definition no_prices_report :: "string \<Rightarrow> string" where
  "no_prices_report q = [CHR 0xE2, CHR 0x9D, CHR 0x8C] @ '' No prices found for '' @ q"

text \<open>
  Line 243: \<^verbatim>\<open>min(10.0, (platforms_found / 3.0) * 8.0 + 2.0)\<close>. The length is converted
  to a float, and each of the three operations rounds. \<^verbatim>\<open>min(10.0, x)\<close> is \<open>x\<close> when
  \<^verbatim>\<open>x < 10.0\<close> and \<^verbatim>\<open>10.0\<close> otherwise. (A length is below \<open>2 ^ 63\<close>, so that its
  conversion does not overflow.)
\<close>

definition confidence_of :: "nat \<Rightarrow> double" where
  "confidence_of platforms_found =
     (let x = fadd (fmul (fdiv (round_to_double (of_nat platforms_found)) 3) 8) (Finite 2)
      in if flt x (Finite 10) then x else Finite 10)"

text \<open>
  Lines 270 to 274: one line per element of \<^verbatim>\<open>price_data\<close>. The test
  \<^verbatim>\<open>if item.get("price")\<close> is Python truthiness: \<^verbatim>\<open>None\<close>, \<^verbatim>\<open>0.0\<close> and \<^verbatim>\<open>-0.0\<close> are
  false.
\<close>

definition platform_line :: "('c, 't, 'a) services \<Rightarrow> price_item \<Rightarrow> string" where
  "platform_line env item =
     (case price item of
        None \<Rightarrow>
          [CHR 0xE2, CHR 0x80, CHR 0xA2] @ '' '' @ str_title env (platform item) @
          '': No price found\<newline>''
      | Some x \<Rightarrow>
          if truthy x
          then [CHR 0xE2, CHR 0x80, CHR 0xA2] @ '' '' @ str_title env (platform item) @
               '': $'' @ format_f 2 x @ '' - '' @ title item @ ''\<newline>''
          else [CHR 0xE2, CHR 0x80, CHR 0xA2] @ '' '' @ str_title env (platform item) @
               '': No price found\<newline>'')"

definition platform_text :: "('c, 't, 'a) services \<Rightarrow> price_item list \<Rightarrow> string" where
  "platform_text env pd = foldl (\<lambda>text item. text @ platform_line env item) '''' pd"

text \<open>Lines 245 to 266 and 277 to 285: the two messages, with the template filled in.\<close>

definition report_system_message :: string where
  "report_system_message =
    ''Create a clean, professional price analysis report.\<newline>'' @
    ''        \<newline>'' @
    ''        Format with emojis and clear sections:\<newline>'' @
    ''        - Product name as header\<newline>'' @
    ''        - Price summary with median, average, range\<newline>'' @
    ''        - Platform breakdown with individual prices\<newline>'' @
    ''        - Confidence score and summary\<newline>'' @
    ''        \<newline>'' @
    ''        Make it easy to read and actionable.''"

definition report_user_message ::
  "string \<Rightarrow> double \<Rightarrow> double \<Rightarrow> double \<Rightarrow> double \<Rightarrow> double \<Rightarrow> string \<Rightarrow> string" where
  "report_user_message product median_price average_price min_price max_price confidence
       platform_data =
    ''Create a price analysis report:\<newline>'' @
    ''        \<newline>'' @
    ''        Product: '' @ product @ ''\<newline>'' @
    ''        Median Price: $'' @ format_f 2 median_price @ ''\<newline>'' @
    ''        Average Price: $'' @ format_f 2 average_price @ ''\<newline>'' @
    ''        Price Range: $'' @ format_f 2 min_price @ '' - $'' @ format_f 2 max_price @
    ''\<newline>'' @
    ''        Confidence Score: '' @ format_f 1 confidence @ ''/10\<newline>'' @
    ''        \<newline>'' @
    ''        Platform Data:\<newline>'' @
    ''        '' @ platform_data @ ''\<newline>'' @
    ''        ''"

definition report_messages ::
  "string \<Rightarrow> double \<Rightarrow> double \<Rightarrow> double \<Rightarrow> double \<Rightarrow> double \<Rightarrow> string
     \<Rightarrow> (string \<times> string) list" where
  "report_messages product median_price average_price min_price max_price confidence
       platform_data =
    [(''system'', report_system_message),
     (''user'', report_user_message product median_price average_price min_price max_price
        confidence platform_data)]"

text \<open>
  The node. It has no \<^verbatim>\<open>try\<close>: an exception of the statistics functions or of the
  rendering call leaves the node (\<open>Inl\<close>).
\<close>

definition generate_report ::
  "('c, 't, 'a) services \<Rightarrow> InsuranceState \<Rightarrow> call list \<times> (exn + InsuranceState)" where
  "generate_report env state =
     (let pd = price_data state;
          query = product_query state;
          vp = valid_prices pd
      in if vp = []
         then ([], Inr (state\<lparr>final_report := no_prices_report query,
                               confidence_score := Some (Finite 0)\<rparr>))
         else
           (case median env vp of Inl e \<Rightarrow> ([], Inl e) | Inr median_price \<Rightarrow>
           (case mean vp of Inl e \<Rightarrow> ([], Inl e) | Inr average_price \<Rightarrow>
           (case py_min vp of Inl e \<Rightarrow> ([], Inl e) | Inr min_price \<Rightarrow>
           (case py_max vp of Inl e \<Rightarrow> ([], Inl e) | Inr max_price \<Rightarrow>
             (let platforms_found = length vp;
                  confidence = confidence_of platforms_found;
                  messages = report_messages query median_price average_price min_price
                               max_price confidence (platform_text env pd)
              in case report_ainvoke env messages of
                   Inl e \<Rightarrow> ([Report_Ainvoke messages], Inl e)
                 | Inr content \<Rightarrow>
                     ([Report_Ainvoke messages],
                      Inr (state\<lparr>final_report := content,
                                  confidence_score := Some confidence\<rparr>))))))))"

section \<open>Data of the test script (src/test.py) and fixed services\<close>

text \<open>
  A title-casing function for the fixed services below: a letter that follows an uncased
  character is upper-cased, a letter that follows a cased one is lower-cased, where the
  letters are the ASCII letters. It agrees with \<^verbatim>\<open>str.title()\<close> on ASCII strings.
\<close>

definition is_lower :: "char \<Rightarrow> bool" where
  "is_lower c = (97 \<le> (of_char c :: nat) \<and> (of_char c :: nat) \<le> 122)"

definition is_upper :: "char \<Rightarrow> bool" where
  "is_upper c = (65 \<le> (of_char c :: nat) \<and> (of_char c :: nat) \<le> 90)"

definition to_upper :: "char \<Rightarrow> char" where
  "to_upper c = (if is_lower c then char_of ((of_char c :: nat) - 32) else c)"

definition to_lower :: "char \<Rightarrow> char" where
  "to_lower c = (if is_upper c then char_of ((of_char c :: nat) + 32) else c)"

fun title_from :: "bool \<Rightarrow> string \<Rightarrow> string" where
  "title_from prev_cased [] = []"
| "title_from prev_cased (c # cs) =
     (if is_lower c \<or> is_upper c
      then (if prev_cased then to_lower c else to_upper c) # title_from True cs
      else c # title_from False cs)"

definition ascii_title :: "string \<Rightarrow> string" where
  "ascii_title s = title_from False s"

text \<open>
  The mock data of \<^verbatim>\<open>test_generate_report\<close>, lines 124 to 153; a price written
  \<^verbatim>\<open>1299.99\<close> is the float nearest to that decimal.
\<close>

definition mock_price_data :: "price_item list" where
  "mock_price_data =
     [\<lparr>platform = ''amazon'', price = Some (round_to_double (129999 / 100)),
       title = ''LG 55'' @ [CHR 0x22] @ '' OLED C4 Series 4K TV'',
       url = ''https://amazon.com/...'', availability = ''In Stock'', item_error = None\<rparr>,
      \<lparr>platform = ''walmart'', price = Some (round_to_double (119999 / 100)),
       title = ''LG 55'' @ [CHR 0x22] @ '' 4K UHD Smart TV'',
       url = ''https://walmart.com/...'', availability = ''In Stock'', item_error = None\<rparr>,
      \<lparr>platform = ''bestbuy'', price = Some (round_to_double (134999 / 100)),
       title = ''LG 55'' @ [CHR 0x22] @ '' B4 Series OLED TV'',
       url = ''https://bestbuy.com/...'', availability = ''Available'', item_error = None\<rparr>]"

definition mock_state :: InsuranceState where
  "mock_state =
     \<lparr>product_query = ''LG 55'' @ [CHR 0x22] @ '' TV'', search_results = [],
      price_data = mock_price_data, final_report = '''', error = None,
      confidence_score = None\<rparr>"

text \<open>The initial state of src/src/main.py, for a query.\<close>

definition initial_state :: "string \<Rightarrow> InsuranceState" where
  "initial_state q =
     \<lparr>product_query = q, search_results = [], price_data = [], final_report = '''',
      error = None, confidence_score = None\<rparr>"

text \<open>Services of which every call returns, with a fixed answer.\<close>

definition answering :: "(unit, unit, unit) services" where
  "answering =
     \<lparr>from_dict = Inr (), create_tools = (\<lambda>_. Inr ()),
      create_react_agent = (\<lambda>_ _. Inr ()),
      agent_ainvoke = (\<lambda>_ _. Inr ''found''),
      urls_ainvoke =
        (\<lambda>_. Inr \<lparr>amazon = Some ''http://a'', walmart = None, bestbuy = None\<rparr>),
      price_ainvoke =
        (\<lambda>_. Inr \<lparr>ep_price = Some (Finite 5), ep_title = ''T'',
                   ep_availability = ''In Stock''\<rparr>),
      report_ainvoke = (\<lambda>_. Inr ''REPORT''),
      str_title = ascii_title,
      sorted_with_nan = (\<lambda>xs. xs)\<rparr>"

text \<open>A record with a given platform and price, for concrete inputs.\<close>

definition priced :: "string \<Rightarrow> double option \<Rightarrow> price_item" where
  "priced p x =
     \<lparr>platform = p, price = x, title = ''T'', url = ''u'', availability = ''In Stock'',
      item_error = None\<rparr>"

definition four_prices :: "price_item list" where
  "four_prices =
     [priced ''amazon'' (Some (Finite 10)), priced ''walmart'' (Some (Finite 40)),
      priced ''bestbuy'' None, priced ''target'' (Some (Finite 30)),
      priced ''ebay'' (Some (Finite 20))]"

text \<open>States with one and with two URLs to extract from.\<close>

definition amazon_only :: InsuranceState where
  "amazon_only = (initial_state ''tv'')\<lparr>search_results := [(''amazon'', ''http://a'')]\<rparr>"

definition two_platforms :: InsuranceState where
  "two_platforms =
     (initial_state ''tv'')\<lparr>search_results :=
        [(''amazon'', ''http://a''), (''walmart'', ''http://w'')]\<rparr>"

text \<open>
  Services whose client cannot be built; services whose agent raises on the Amazon page
  only; services whose structured extraction finds no price.
\<close>

definition unreachable :: "(unit, unit, unit) services" where
  "unreachable = answering\<lparr>from_dict := Inl ''boom''\<rparr>"

definition amazon_times_out :: "(unit, unit, unit) services" where
  "amazon_times_out =
     answering\<lparr>agent_ainvoke :=
        (\<lambda>_ prompt. if prompt = extraction_prompt ''amazon'' ''http://a''
                     then Inl ''timeout'' else Inr ''page'')\<rparr>"

definition no_price_read :: "(unit, unit, unit) services" where
  "no_price_read =
     answering\<lparr>price_ainvoke :=
        (\<lambda>_. Inr \<lparr>ep_price = None, ep_title = '''', ep_availability = ''Unknown''\<rparr>)\<rparr>"

section \<open>Predicates used to state the properties\<close>

text \<open>The calls that are an invocation of the agent.\<close>

fun is_agent_ainvoke :: "call \<Rightarrow> bool" where
  "is_agent_ainvoke (Agent_Ainvoke _) = True"
| "is_agent_ainvoke _ = False"

text \<open>
  The invariant of an extraction record as the specification words it: the price is a
  positive number and there is no error, or the price is null and the availability is
  the extraction-failure marker or an error is present.
\<close>

definition spec_record_invariant :: "price_item \<Rightarrow> bool" where
  "spec_record_invariant item =
     ((case price item of None \<Rightarrow> False | Some x \<Rightarrow> flt (Finite 0) x)
        \<and> item_error item = None
      \<or> price item = None
        \<and> (availability item = ''Error extracting'' \<or> item_error item \<noteq> None))"

section \<open>Evaluating the float operations on numerals\<close>

lemma floor_numeral_div: "\<lfloor>numeral a / numeral b :: rat\<rfloor> = numeral a div numeral b"
  using floor_divide_of_int_eq [of "numeral a" "numeral b", where ?'a = rat] by simp

lemma ceiling_numeral_div: "\<lceil>numeral a / numeral b :: rat\<rceil> = - (- numeral a div numeral b)"
  using floor_divide_of_int_eq [of "- numeral a" "numeral b", where ?'a = rat]
  by (simp add: ceiling_def)

lemmas eval_double = round_to_double_def ilog2_def pow2_def round_half_even_def Let_def
  bitlen_def compute_floorlog floor_numeral_div ceiling_numeral_div

lemma digits_numeral:
  "digits (numeral k) =
     (if (numeral k :: nat) < 10 then [digit_char (numeral k)]
      else digits (numeral k div 10) @ [digit_char (numeral k mod 10)])"
  by (rule digits.simps)

lemma digits_0: "digits 0 = ''0''" and digits_1: "digits (Suc 0) = ''1''"
  by (simp_all add: digits.simps [of 0] digits.simps [of "Suc 0"] digit_char_def)

lemmas eval_format = fixed_digits_def round_half_even_def Let_def floor_numeral_div
  digits_numeral digits_0 digits_1 digit_char_def

section \<open>Properties of the library functions and of \<^verbatim>\<open>generate_report\<close>\<close>

lemma valid_prices_Nil: "valid_prices [] = []"
  by (simp add: valid_prices_def List.map_filter_simps)

lemma valid_prices_Cons:
  "valid_prices (item # pd) =
     (case price item of None \<Rightarrow> valid_prices pd | Some x \<Rightarrow> x # valid_prices pd)"
  by (simp add: valid_prices_def List.map_filter_simps split: option.splits)

lemma valid_prices_append: "valid_prices (xs @ ys) = valid_prices xs @ valid_prices ys"
  by (simp add: valid_prices_def List.map_filter_def)

lemma valid_prices_empty_iff:
  "valid_prices pd = [] \<longleftrightarrow> (\<forall>item \<in> set pd. price item = None)"
  by (induction pd) (auto simp: valid_prices_Nil valid_prices_Cons split: option.splits)

lemma platform_text_foldl:
  "foldl (\<lambda>text item. text @ platform_line env item) acc pd =
     acc @ concat (map (platform_line env) pd)"
  by (induction pd arbitrary: acc) simp_all

lemma platform_text_concat: "platform_text env pd = concat (map (platform_line env) pd)"
  by (simp add: platform_text_def platform_text_foldl)

lemma length_py_sorted: "length (py_sorted env xs) = length xs"
  by (auto simp: py_sorted_def dest: mset_eq_length)

lemma py_sorted_eq_Nil: "py_sorted env xs = [] \<longleftrightarrow> xs = []"
  using length_py_sorted [of env xs] by (metis length_0_conv)

lemma median_returns:
  "xs \<noteq> [] \<Longrightarrow> median env xs =
     Inr (if odd (length xs) then py_sorted env xs ! (length xs div 2)
          else fdiv (fadd (py_sorted env xs ! (length xs div 2 - 1))
                      (py_sorted env xs ! (length xs div 2))) 2)"
  by (auto simp: median_def Let_def length_py_sorted py_sorted_eq_Nil odd_iff_mod_2_eq_one)

lemma py_sorted_no_nan: "NaN \<notin> set xs \<Longrightarrow> py_sorted env xs = sort_key rank xs"
  by (simp add: py_sorted_def)

lemma mean_returns:
  "xs \<noteq> [] \<Longrightarrow> mean xs =
     Inr (if list_all is_finite xs
          then round_to_double (sum_list (map exact_value xs) / of_nat (length xs))
          else fdiv (foldl fadd (Finite 0) (filter (\<lambda>x. \<not> is_finite x) xs))
                 (of_nat (length xs)))"
  by (cases xs) (simp_all add: mean_def)

lemma fold_keep_smaller:
  assumes "NaN \<notin> set (x # xs)"
  shows "fold (\<lambda>y m. if flt y m then y else m) xs x \<in> set (x # xs)
         \<and> (\<forall>z \<in> set (x # xs). rank (fold (\<lambda>y m. if flt y m then y else m) xs x) \<le> rank z)"
  using assms
proof (induction xs arbitrary: x)
  case Nil
  then show ?case by simp
next
  case (Cons y ys)
  show ?case
  proof (cases "flt y x")
    case True
    then have lt: "rank y < rank x" by (simp add: flt_def)
    from Cons.prems have "NaN \<notin> set (y # ys)" by auto
    from Cons.IH [OF this] lt True show ?thesis by (auto simp: less_le_not_le)
  next
    case False
    with Cons.prems have le: "rank x \<le> rank y" by (auto simp: flt_def)
    from Cons.prems have "NaN \<notin> set (x # ys)" by auto
    from Cons.IH [OF this] le False show ?thesis by auto
  qed
qed

lemma fold_keep_larger:
  assumes "NaN \<notin> set (x # xs)"
  shows "fold (\<lambda>y m. if flt m y then y else m) xs x \<in> set (x # xs)
         \<and> (\<forall>z \<in> set (x # xs). rank z \<le> rank (fold (\<lambda>y m. if flt m y then y else m) xs x))"
  using assms
proof (induction xs arbitrary: x)
  case Nil
  then show ?case by simp
next
  case (Cons y ys)
  show ?case
  proof (cases "flt x y")
    case True
    then have lt: "rank x < rank y" by (simp add: flt_def)
    from Cons.prems have "NaN \<notin> set (y # ys)" by auto
    from Cons.IH [OF this] lt True show ?thesis by (auto simp: less_le_not_le)
  next
    case False
    with Cons.prems have le: "rank y \<le> rank x" by (auto simp: flt_def)
    from Cons.prems have "NaN \<notin> set (x # ys)" by auto
    from Cons.IH [OF this] le False show ?thesis by auto
  qed
qed

lemma py_min_returns: "xs \<noteq> [] \<Longrightarrow> \<exists>m. py_min xs = Inr m"
  by (cases xs) simp_all

lemma py_max_returns: "xs \<noteq> [] \<Longrightarrow> \<exists>m. py_max xs = Inr m"
  by (cases xs) simp_all

lemma py_min_least:
  "NaN \<notin> set xs \<Longrightarrow> py_min xs = Inr m \<Longrightarrow> m \<in> set xs \<and> (\<forall>z \<in> set xs. rank m \<le> rank z)"
  using fold_keep_smaller by (cases xs) (auto simp del: set_simps)

lemma py_max_greatest:
  "NaN \<notin> set xs \<Longrightarrow> py_max xs = Inr m \<Longrightarrow> m \<in> set xs \<and> (\<forall>z \<in> set xs. rank z \<le> rank m)"
  using fold_keep_larger by (cases xs) (auto simp del: set_simps)

lemma generate_report_valid:
  assumes "valid_prices (price_data s) = vp" and "vp \<noteq> []"
  shows "\<exists>med avg mn mx.
     median env vp = Inr med \<and> mean vp = Inr avg \<and> py_min vp = Inr mn \<and> py_max vp = Inr mx \<and>
     generate_report env s =
       ([Report_Ainvoke (report_messages (product_query s) med avg mn mx
           (confidence_of (length vp)) (platform_text env (price_data s)))],
        case report_ainvoke env (report_messages (product_query s) med avg mn mx
           (confidence_of (length vp)) (platform_text env (price_data s))) of
          Inl e \<Rightarrow> Inl e
        | Inr content \<Rightarrow>
            Inr (s\<lparr>final_report := content,
                    confidence_score := Some (confidence_of (length vp))\<rparr>))"
proof -
  obtain med where med: "median env vp = Inr med"
    using median_returns [OF assms(2)] by blast
  obtain avg where avg: "mean vp = Inr avg"
    using mean_returns [OF assms(2)] by blast
  obtain mn where mn: "py_min vp = Inr mn"
    using py_min_returns [OF assms(2)] by blast
  obtain mx where mx: "py_max vp = Inr mx"
    using py_max_returns [OF assms(2)] by blast
  have "generate_report env s =
       ([Report_Ainvoke (report_messages (product_query s) med avg mn mx
           (confidence_of (length vp)) (platform_text env (price_data s)))],
        case report_ainvoke env (report_messages (product_query s) med avg mn mx
           (confidence_of (length vp)) (platform_text env (price_data s))) of
          Inl e \<Rightarrow> Inl e
        | Inr content \<Rightarrow>
            Inr (s\<lparr>final_report := content,
                    confidence_score := Some (confidence_of (length vp))\<rparr>))"
    using assms med avg mn mx
    by (simp add: generate_report_def Let_def split: sum.splits)
  with med avg mn mx show ?thesis by blast
qed

section \<open>Properties of \<^verbatim>\<open>search_products\<close> and \<^verbatim>\<open>extract_prices\<close>\<close>

lemma search_body_raises_iff:
  "snd (search_body env q) = Inl e \<longleftrightarrow>
     from_dict env = Inl e
     \<or> (\<exists>client. from_dict env = Inr client \<and>
          (create_tools env client = Inl e
           \<or> (\<exists>tools. create_tools env client = Inr tools \<and>
                (create_react_agent env tools search_agent_prompt = Inl e
                 \<or> (\<exists>agent. create_react_agent env tools search_agent_prompt = Inr agent \<and>
                      (agent_ainvoke env agent (search_prompt q) = Inl e
                       \<or> (\<exists>content. agent_ainvoke env agent (search_prompt q) = Inr content \<and>
                            urls_ainvoke env (urls_prompt content) = Inl e)))))))"
  by (auto simp: search_body_def split: sum.splits)

lemma search_products_raised:
  "snd (search_body env (product_query s)) = Inl e \<Longrightarrow>
   snd (search_products env s) =
     s\<lparr>search_results := [], error := Some (''Product search failed: '' @ e)\<rparr>"
  by (cases "search_body env (product_query s)") (simp add: search_products_def)

lemma search_products_returned:
  "snd (search_body env (product_query s)) = Inr urls \<Longrightarrow>
   snd (search_products env s) = s\<lparr>search_results := urls\<rparr>"
  by (cases "search_body env (product_query s)") (simp add: search_products_def)

lemma search_products_error_changed:
  "error (snd (search_products env s)) \<noteq> error s \<Longrightarrow>
   search_results (snd (search_products env s)) = []"
  by (cases "search_body env (product_query s)")
     (auto simp: search_products_def split: sum.splits)

lemma extract_loop_items:
  "snd (extract_loop env agent results pd) =
     pd @ map (\<lambda>(p, u). snd (extract_platform env agent p u)) results"
  by (induction results arbitrary: pd) (auto simp: case_prod_beta)

lemma extract_loop_calls:
  "fst (extract_loop env agent results pd) =
     concat (map (\<lambda>(p, u). fst (extract_platform env agent p u)) results)"
  by (induction results arbitrary: pd) (auto simp: case_prod_beta)

lemma extract_platform_cases:
  "(\<exists>e. agent_ainvoke env agent (extraction_prompt p u) = Inl e \<and>
        snd (extract_platform env agent p u) = failure_record p u e)
   \<or> (\<exists>content e.
        agent_ainvoke env agent (extraction_prompt p u) = Inr content \<and>
        price_ainvoke env (price_prompt p content) = Inl e \<and>
        snd (extract_platform env agent p u) = failure_record p u e)
   \<or> (\<exists>content structured_data.
        agent_ainvoke env agent (extraction_prompt p u) = Inr content \<and>
        price_ainvoke env (price_prompt p content) = Inr structured_data \<and>
        snd (extract_platform env agent p u) = success_record p u structured_data)"
  by (auto simp: extract_platform_def split: sum.splits)

lemma extract_platform_key:
  "platform (snd (extract_platform env agent p u)) = p
   \<and> url (snd (extract_platform env agent p u)) = u"
  by (auto simp: extract_platform_def success_record_def failure_record_def split: sum.splits)

lemma extract_platform_agent_calls:
  "filter is_agent_ainvoke (fst (extract_platform env agent p u)) =
     [Agent_Ainvoke (extraction_prompt p u)]"
  by (auto simp: extract_platform_def split: sum.splits)

lemma extract_prices_built:
  assumes "search_results s \<noteq> []"
    and "from_dict env = Inr client"
    and "create_tools env client = Inr tools"
    and "create_react_agent env tools extraction_agent_prompt = Inr agent"
  shows "extract_prices env s =
     ([From_Dict, Create_Tools, Create_React_Agent extraction_agent_prompt] @
        concat (map (\<lambda>(p, u). fst (extract_platform env agent p u)) (search_results s)),
      s\<lparr>price_data := map (\<lambda>(p, u). snd (extract_platform env agent p u)) (search_results s)\<rparr>)"
proof -
  obtain calls pd where l: "extract_loop env agent (search_results s) [] = (calls, pd)"
    by (cases "extract_loop env agent (search_results s) []")
  have "calls = concat (map (\<lambda>(p, u). fst (extract_platform env agent p u)) (search_results s))"
    using extract_loop_calls [of env agent "search_results s" "[]"] l by simp
  moreover have "pd = map (\<lambda>(p, u). snd (extract_platform env agent p u)) (search_results s)"
    using extract_loop_items [of env agent "search_results s" "[]"] l by simp
  ultimately show ?thesis
    using assms l by (simp add: extract_prices_def Let_def)
qed

lemma extract_prices_setup_raised:
  assumes "search_results s \<noteq> []"
    and "from_dict env = Inl e
         \<or> (\<exists>client. from_dict env = Inr client \<and>
              (create_tools env client = Inl e
               \<or> (\<exists>tools. create_tools env client = Inr tools \<and>
                    create_react_agent env tools extraction_agent_prompt = Inl e)))"
  shows "snd (extract_prices env s) =
     s\<lparr>price_data := [], error := Some (''Price extraction failed: '' @ e)\<rparr>"
  using assms by (auto simp: extract_prices_def Let_def)

lemma extract_prices_empty:
  "search_results s = [] \<Longrightarrow>
   extract_prices env s =
     ([], s\<lparr>price_data := [],
            error := Some ''No product URLs found to extract prices from''\<rparr>)"
  by (simp add: extract_prices_def)

lemma extract_prices_error_changed:
  "error (snd (extract_prices env s)) \<noteq> error s \<Longrightarrow>
   price_data (snd (extract_prices env s)) = []"
  by (auto simp: extract_prices_def Let_def split: sum.splits prod.splits if_splits)

lemma extract_prices_items:
  assumes "item \<in> set (price_data (snd (extract_prices env s)))"
  shows "\<exists>client tools agent p u.
           from_dict env = Inr client \<and> create_tools env client = Inr tools
           \<and> create_react_agent env tools extraction_agent_prompt = Inr agent
           \<and> (p, u) \<in> set (search_results s)
           \<and> item = snd (extract_platform env agent p u)"
proof (cases "search_results s = []")
  case True
  with assms show ?thesis by (simp add: extract_prices_empty)
next
  case False
  show ?thesis
  proof (cases "\<exists>client tools agent. from_dict env = Inr client
      \<and> create_tools env client = Inr tools
      \<and> create_react_agent env tools extraction_agent_prompt = Inr agent")
    case True
    then obtain client tools agent where b: "from_dict env = Inr client"
      "create_tools env client = Inr tools"
      "create_react_agent env tools extraction_agent_prompt = Inr agent" by blast
    from extract_prices_built [OF False b] assms
    obtain p u where "(p, u) \<in> set (search_results s)"
      and "item = snd (extract_platform env agent p u)"
      by auto
    with b show ?thesis by blast
  next
    case no: False
    have "price_data (snd (extract_prices env s)) = []"
      using False no by (auto simp: extract_prices_def Let_def split: sum.splits)
    with assms show ?thesis by simp
  qed
qed

lemma extract_prices_product_query:
  "product_query (snd (extract_prices env s)) = product_query s"
  by (auto simp: extract_prices_def Let_def split: sum.splits prod.splits)

section \<open>Facts about the concrete inputs\<close>

lemma extraction_prompts_differ:
  "extraction_prompt ''walmart'' ''http://w'' \<noteq> extraction_prompt ''amazon'' ''http://a''"
  by (simp add: extraction_prompt_def)

lemma confidence_of_1: "confidence_of 1 = Finite (2627099782632789 / 562949953421312)"
  by (simp add: confidence_of_def flt_def eval_double)

lemma confidence_of_2: "confidence_of 2 = Finite (8256599316845909 / 1125899906842624)"
  by (simp add: confidence_of_def flt_def eval_double)

lemma confidence_of_3: "confidence_of 3 = Finite 10"
  by (simp add: confidence_of_def flt_def eval_double)

lemma confidence_of_Suc:
  "confidence_of (Suc 0) = Finite (2627099782632789 / 562949953421312)"
  "confidence_of (Suc (Suc 0)) = Finite (8256599316845909 / 1125899906842624)"
  "confidence_of (Suc (Suc (Suc 0))) = Finite 10"
  using confidence_of_1 confidence_of_2 confidence_of_3
  by (simp_all add: numeral_2_eq_2 numeral_3_eq_3)

lemma mock_amazon: "round_to_double (129999 / 100) = Finite (5717416483970089 / 4398046511104)"
  by (simp add: eval_double)

lemma mock_walmart: "round_to_double (119999 / 100) = Finite (5277611832859689 / 4398046511104)"
  by (simp add: eval_double)

lemma mock_bestbuy: "round_to_double (134999 / 100) = Finite (5937318809525289 / 4398046511104)"
  by (simp add: eval_double)

lemma valid_prices_mock:
  "valid_prices mock_price_data =
     [Finite (5717416483970089 / 4398046511104), Finite (5277611832859689 / 4398046511104),
      Finite (5937318809525289 / 4398046511104)]"
  by (simp add: mock_price_data_def valid_prices_Cons valid_prices_Nil mock_amazon
      mock_walmart mock_bestbuy)

lemma median_mock:
  "median env [Finite (5717416483970089 / 4398046511104),
      Finite (5277611832859689 / 4398046511104), Finite (5937318809525289 / 4398046511104)] =
     Inr (Finite (5717416483970089 / 4398046511104))"
  by (simp add: median_def py_sorted_def Let_def)

lemma mean_mock:
  "mean [Finite (5717416483970089 / 4398046511104),
      Finite (5277611832859689 / 4398046511104), Finite (5937318809525289 / 4398046511104)] =
     Inr (Finite (2822057854392511 / 2199023255552))"
  by (simp add: mean_def eval_double)

lemma min_max_mock:
  "py_min [Finite (5717416483970089 / 4398046511104),
      Finite (5277611832859689 / 4398046511104), Finite (5937318809525289 / 4398046511104)] =
     Inr (Finite (5277611832859689 / 4398046511104))"
  "py_max [Finite (5717416483970089 / 4398046511104),
      Finite (5277611832859689 / 4398046511104), Finite (5937318809525289 / 4398046511104)] =
     Inr (Finite (5937318809525289 / 4398046511104))"
  by (simp_all add: flt_def)

lemma printed_mock:
  "format_f 2 (Finite (5717416483970089 / 4398046511104)) = ''1299.99''"
  "format_f 2 (Finite (2822057854392511 / 2199023255552)) = ''1283.32''"
  "format_f 2 (Finite (5277611832859689 / 4398046511104)) = ''1199.99''"
  "format_f 2 (Finite (5937318809525289 / 4398046511104)) = ''1349.99''"
  by (simp_all add: eval_format)

lemma valid_prices_four:
  "valid_prices four_prices = [Finite 10, Finite 40, Finite 30, Finite 20]"
  by (simp add: four_prices_def priced_def valid_prices_Cons valid_prices_Nil)

lemma statistics_four:
  "median env [Finite 10, Finite 40, Finite 30, Finite 20] = Inr (Finite 25)"
  "mean [Finite 10, Finite 40, Finite 30, Finite 20] = Inr (Finite 25)"
  "py_min [Finite 10, Finite 40, Finite 30, Finite 20] = Inr (Finite 10)"
  "py_max [Finite 10, Finite 40, Finite 30, Finite 20] = Inr (Finite 40)"
  by (simp_all add: median_def py_sorted_def mean_def flt_def eval_double)

lemma statistics_zero_ten:
  "median env [Finite 0, Finite 10] = Inr (Finite 5)"
  "mean [Finite 0, Finite 10] = Inr (Finite 5)"
  "py_min [Finite 0, Finite 10] = Inr (Finite 0)"
  "py_max [Finite 0, Finite 10] = Inr (Finite 10)"
  by (simp_all add: median_def py_sorted_def mean_def flt_def eval_double)

lemma statistics_five:
  "median env [Finite 5] = Inr (Finite 5)"
  "mean [Finite 5] = Inr (Finite 5)"
  "py_min [Finite 5] = Inr (Finite 5)"
  "py_max [Finite 5] = Inr (Finite 5)"
  by (simp_all add: median_def py_sorted_def mean_def flt_def eval_double)

lemma ascii_title_amazon: "ascii_title ''amazon'' = ''Amazon''"
  by code_simp

section \<open>Claims about \<^verbatim>\<open>generate_report\<close>\<close>

text \<open>
  C1 (amended). For every state whose list of non-null prices is non-empty, of length
  \<open>L\<close>: whenever \<^verbatim>\<open>generate_report\<close> returns a state, its \<^verbatim>\<open>confidence_score\<close> is the
  float that \<^verbatim>\<open>min(10.0, (L / 3.0) * 8.0 + 2.0)\<close> evaluates to, each operation rounded
  to binary64. It is exactly \<^verbatim>\<open>10.0\<close> for \<open>L = 3\<close>; for \<open>L = 1\<close> it is the float
  \<open>2627099782632789 / 2 ^ 49\<close> (printed \<^verbatim>\<open>4.666666666666666\<close>), which is \<^verbatim>\<open>4.667\<close> to three
  decimals. The only way the node does not return a state is that the rendering call
  raised.
\<close>

theorem generate_report_confidence_score:
  assumes "valid_prices (price_data s) \<noteq> []"
    and "L = length (valid_prices (price_data s))"
  shows "case snd (generate_report env s) of
           Inr s' \<Rightarrow>
             confidence_score s' =
               Some (let x = fadd (fmul (fdiv (round_to_double (of_nat L)) 3) 8) (Finite 2)
                     in if flt x (Finite 10) then x else Finite 10)
             \<and> (L = 3 \<longrightarrow> confidence_score s' = Some (Finite 10))
             \<and> (L = 1 \<longrightarrow> confidence_score s' =
                          Some (Finite (2627099782632789 / 562949953421312))
                        \<and> \<bar>2627099782632789 / 562949953421312 - 4667 / 1000\<bar> < (1 / 2000 :: rat))
         | Inl e \<Rightarrow> \<exists>messages. report_ainvoke env messages = Inl e"
proof -
  from generate_report_valid [OF refl assms(1), of env]
  obtain med avg mn mx where gr: "generate_report env s =
       ([Report_Ainvoke (report_messages (product_query s) med avg mn mx
           (confidence_of (length (valid_prices (price_data s))))
           (platform_text env (price_data s)))],
        case report_ainvoke env (report_messages (product_query s) med avg mn mx
           (confidence_of (length (valid_prices (price_data s))))
           (platform_text env (price_data s))) of
          Inl e \<Rightarrow> Inl e
        | Inr content \<Rightarrow>
            Inr (s\<lparr>final_report := content,
                    confidence_score :=
                      Some (confidence_of (length (valid_prices (price_data s))))\<rparr>))"
    by blast
  have c: "confidence_of L =
      (let x = fadd (fmul (fdiv (round_to_double (of_nat L)) 3) 8) (Finite 2)
       in if flt x (Finite 10) then x else Finite 10)"
    by (simp add: confidence_of_def)
  have c3: "L = 3 \<Longrightarrow> confidence_of L = Finite 10"
    using confidence_of_3 by simp
  have c1: "L = 1 \<Longrightarrow> confidence_of L = Finite (2627099782632789 / 562949953421312)"
    using confidence_of_1 by simp
  have near: "\<bar>2627099782632789 / 562949953421312 - 4667 / 1000\<bar> < (1 / 2000 :: rat)"
    by simp
  show ?thesis
  proof (cases "report_ainvoke env (report_messages (product_query s) med avg mn mx
           (confidence_of (length (valid_prices (price_data s))))
           (platform_text env (price_data s)))")
    case (Inl e)
    then show ?thesis using gr by auto
  next
    case (Inr content)
    define s' where "s' = s\<lparr>final_report := content, confidence_score := Some (confidence_of L)\<rparr>"
    have ret: "snd (generate_report env s) = Inr s'"
      using gr assms(2) Inr by (simp add: s'_def)
    have cs: "confidence_score s' = Some (confidence_of L)"
      by (simp add: s'_def)
    have g1: "confidence_score s' =
               Some (let x = fadd (fmul (fdiv (round_to_double (of_nat L)) 3) 8) (Finite 2)
                     in if flt x (Finite 10) then x else Finite 10)"
      using cs c by simp
    have g2: "L = 3 \<longrightarrow> confidence_score s' = Some (Finite 10)"
      using cs c3 by simp
    have g3: "L = 1 \<longrightarrow> confidence_score s' =
                          Some (Finite (2627099782632789 / 562949953421312))
                        \<and> \<bar>2627099782632789 / 562949953421312 - 4667 / 1000\<bar> < (1 / 2000 :: rat)"
      using cs c1 near by simp
    from g1 g2 g3 show ?thesis
      unfolding ret by simp
  qed
qed

theorem generate_report_confidence_score_witness:
  "valid_prices (price_data mock_state) \<noteq> []
   \<and> (3::nat) = length (valid_prices (price_data mock_state))
   \<and> (\<exists>s'. snd (generate_report answering mock_state) = Inr s'
          \<and> confidence_score s' = Some (Finite 10))"
proof -
  have h1: "valid_prices (price_data mock_state) \<noteq> []"
    by (simp add: mock_state_def valid_prices_mock)
  have h2: "(3::nat) = length (valid_prices (price_data mock_state))"
    by (simp add: mock_state_def valid_prices_mock)
  have ret: "\<exists>s'. snd (generate_report answering mock_state) = Inr s'"
    using generate_report_valid [OF refl h1, of answering] by (auto simp: answering_def)
  show ?thesis
    using h1 h2 ret generate_report_confidence_score [OF h1 h2, of answering]
    by auto
qed

text \<open>
  C1 as stated fails: with one non-null price the confidence score is the float above,
  which is not 14/3.
\<close>

theorem generate_report_confidence_score_counterexample:
  "map_sum id confidence_score
     (snd (generate_report answering
        (mock_state\<lparr>price_data := [priced ''amazon'' (Some (Finite 5))]\<rparr>))) =
     Inr (Some (Finite (2627099782632789 / 562949953421312)))
   \<and> Finite (2627099782632789 / 562949953421312) \<noteq> Finite (14 / 3)"
  using confidence_of_1
  by (simp add: generate_report_def priced_def valid_prices_Cons valid_prices_Nil
      statistics_five flt_def Let_def answering_def)

text \<open>
  C4. For every state whose \<^verbatim>\<open>price_data\<close> has no entry with a non-null price (the empty
  list included), \<^verbatim>\<open>generate_report\<close> makes no external call and returns the state with
  \<^verbatim>\<open>final_report\<close> the fixed message naming \<^verbatim>\<open>product_query\<close> and
  \<^verbatim>\<open>confidence_score = 0.0\<close>.
\<close>

theorem generate_report_no_prices:
  assumes "\<forall>item \<in> set (price_data s). price item = None"
  shows "generate_report env s =
           ([], Inr (s\<lparr>final_report := [CHR 0xE2, CHR 0x9D, CHR 0x8C] @
                                         '' No prices found for '' @ product_query s,
                         confidence_score := Some (Finite 0)\<rparr>))"
  using assms
  by (simp add: generate_report_def Let_def valid_prices_empty_iff no_prices_report_def)

theorem generate_report_no_prices_witness:
  "map price (price_data (mock_state\<lparr>price_data :=
        [failure_record ''amazon'' ''http://a'' ''timeout'']\<rparr>)) = [None]
   \<and> fst (generate_report answering (mock_state\<lparr>price_data :=
        [failure_record ''amazon'' ''http://a'' ''timeout'']\<rparr>)) = []
   \<and> map_sum id confidence_score (snd (generate_report answering (mock_state\<lparr>price_data :=
        [failure_record ''amazon'' ''http://a'' ''timeout'']\<rparr>))) = Inr (Some (Finite 0))"
proof -
  let ?s = "mock_state\<lparr>price_data := [failure_record ''amazon'' ''http://a'' ''timeout'']\<rparr>"
  have h: "\<forall>item \<in> set (price_data ?s). price item = None"
    by (simp add: failure_record_def)
  show ?thesis
    using generate_report_no_prices [OF h, of answering] by (simp add: failure_record_def)
qed

text \<open>
  C9. When some price is non-null, the single call of \<^verbatim>\<open>generate_report\<close> is the
  rendering call, and the values it is given are \<^verbatim>\<open>statistics.median\<close>,
  \<^verbatim>\<open>statistics.mean\<close>, \<^verbatim>\<open>min\<close> and \<^verbatim>\<open>max\<close> of exactly the non-null prices. Where no
  price is NaN, the median is the middle element of the sorted prices, or the float average
  of the two middle elements when their number is even, and the minimum and the maximum
  are a least and a greatest price; where all prices are finite, the mean is their exact
  arithmetic mean rounded once. On the mock data of src/test.py the median, minimum and
  maximum are the floats \<^verbatim>\<open>1299.99\<close>, \<^verbatim>\<open>1199.99\<close> and \<^verbatim>\<open>1349.99\<close>, the mean is the float
  \<^verbatim>\<open>1283.3233333333333\<close>, printed \<^verbatim>\<open>1283.32\<close>, and the confidence score is \<^verbatim>\<open>10.0\<close>.
\<close>

theorem generate_report_statistics:
  "(valid_prices (price_data s) = vp \<and> vp \<noteq> [] \<longrightarrow>
      (\<exists>med avg mn mx.
          generate_report env s =
            ([Report_Ainvoke (report_messages (product_query s) med avg mn mx
                (confidence_of (length vp)) (platform_text env (price_data s)))],
             case report_ainvoke env (report_messages (product_query s) med avg mn mx
                (confidence_of (length vp)) (platform_text env (price_data s))) of
               Inl e \<Rightarrow> Inl e
             | Inr content \<Rightarrow>
                 Inr (s\<lparr>final_report := content,
                         confidence_score := Some (confidence_of (length vp))\<rparr>))
          \<and> median env vp = Inr med \<and> mean vp = Inr avg
          \<and> py_min vp = Inr mn \<and> py_max vp = Inr mx
          \<and> (NaN \<notin> set vp \<longrightarrow>
                med = (if odd (length vp) then sort_key rank vp ! (length vp div 2)
                       else fdiv (fadd (sort_key rank vp ! (length vp div 2 - 1))
                                   (sort_key rank vp ! (length vp div 2))) 2)
                \<and> mn \<in> set vp \<and> (\<forall>x \<in> set vp. rank mn \<le> rank x)
                \<and> mx \<in> set vp \<and> (\<forall>x \<in> set vp. rank x \<le> rank mx))
          \<and> (list_all is_finite vp \<longrightarrow>
                avg = round_to_double (sum_list (map exact_value vp) / of_nat (length vp)))))
   \<and> generate_report env mock_state =
       ([Report_Ainvoke (report_messages (product_query mock_state)
           (round_to_double (129999 / 100)) (Finite (2822057854392511 / 2199023255552))
           (round_to_double (119999 / 100)) (round_to_double (134999 / 100)) (Finite 10)
           (platform_text env mock_price_data))],
        case report_ainvoke env (report_messages (product_query mock_state)
           (round_to_double (129999 / 100)) (Finite (2822057854392511 / 2199023255552))
           (round_to_double (119999 / 100)) (round_to_double (134999 / 100)) (Finite 10)
           (platform_text env mock_price_data)) of
          Inl e \<Rightarrow> Inl e
        | Inr content \<Rightarrow>
            Inr (mock_state\<lparr>final_report := content, confidence_score := Some (Finite 10)\<rparr>))
   \<and> \<bar>2822057854392511 / 2199023255552 - 128332 / 100\<bar> < (1 / 200 :: rat)
   \<and> format_f 2 (round_to_double (129999 / 100)) = ''1299.99''
   \<and> format_f 2 (Finite (2822057854392511 / 2199023255552)) = ''1283.32''
   \<and> format_f 2 (round_to_double (119999 / 100)) = ''1199.99''
   \<and> format_f 2 (round_to_double (134999 / 100)) = ''1349.99''"
proof (intro conjI impI)
  assume a: "valid_prices (price_data s) = vp \<and> vp \<noteq> []"
  then have vp: "valid_prices (price_data s) = vp" and ne: "vp \<noteq> []" by simp_all
  from generate_report_valid [OF vp ne, of env]
  obtain med avg mn mx where med: "median env vp = Inr med" and avg: "mean vp = Inr avg"
    and mn: "py_min vp = Inr mn" and mx: "py_max vp = Inr mx"
    and gr: "generate_report env s =
            ([Report_Ainvoke (report_messages (product_query s) med avg mn mx
                (confidence_of (length vp)) (platform_text env (price_data s)))],
             case report_ainvoke env (report_messages (product_query s) med avg mn mx
                (confidence_of (length vp)) (platform_text env (price_data s))) of
               Inl e \<Rightarrow> Inl e
             | Inr content \<Rightarrow>
                 Inr (s\<lparr>final_report := content,
                         confidence_score := Some (confidence_of (length vp))\<rparr>))"
    by blast
  have m1: "NaN \<notin> set vp \<longrightarrow>
                med = (if odd (length vp) then sort_key rank vp ! (length vp div 2)
                       else fdiv (fadd (sort_key rank vp ! (length vp div 2 - 1))
                                   (sort_key rank vp ! (length vp div 2))) 2)"
    using med median_returns [OF ne, of env] by (auto simp: py_sorted_no_nan)
  have m2: "NaN \<notin> set vp \<longrightarrow> mn \<in> set vp \<and> (\<forall>x \<in> set vp. rank mn \<le> rank x)"
    using py_min_least [OF _ mn] by blast
  have m3: "NaN \<notin> set vp \<longrightarrow> mx \<in> set vp \<and> (\<forall>x \<in> set vp. rank x \<le> rank mx)"
    using py_max_greatest [OF _ mx] by blast
  have m4: "list_all is_finite vp \<longrightarrow>
                avg = round_to_double (sum_list (map exact_value vp) / of_nat (length vp))"
    using avg mean_returns [OF ne] by auto
  from med avg mn mx gr m1 m2 m3 m4
  show "\<exists>med avg mn mx.
          generate_report env s =
            ([Report_Ainvoke (report_messages (product_query s) med avg mn mx
                (confidence_of (length vp)) (platform_text env (price_data s)))],
             case report_ainvoke env (report_messages (product_query s) med avg mn mx
                (confidence_of (length vp)) (platform_text env (price_data s))) of
               Inl e \<Rightarrow> Inl e
             | Inr content \<Rightarrow>
                 Inr (s\<lparr>final_report := content,
                         confidence_score := Some (confidence_of (length vp))\<rparr>))
          \<and> median env vp = Inr med \<and> mean vp = Inr avg
          \<and> py_min vp = Inr mn \<and> py_max vp = Inr mx
          \<and> (NaN \<notin> set vp \<longrightarrow>
                med = (if odd (length vp) then sort_key rank vp ! (length vp div 2)
                       else fdiv (fadd (sort_key rank vp ! (length vp div 2 - 1))
                                   (sort_key rank vp ! (length vp div 2))) 2)
                \<and> mn \<in> set vp \<and> (\<forall>x \<in> set vp. rank mn \<le> rank x)
                \<and> mx \<in> set vp \<and> (\<forall>x \<in> set vp. rank x \<le> rank mx))
          \<and> (list_all is_finite vp \<longrightarrow>
                avg = round_to_double (sum_list (map exact_value vp) / of_nat (length vp)))"
    by blast
next
  have vp: "valid_prices (price_data mock_state) =
     [Finite (5717416483970089 / 4398046511104), Finite (5277611832859689 / 4398046511104),
      Finite (5937318809525289 / 4398046511104)]"
    by (simp add: mock_state_def valid_prices_mock)
  have pd: "price_data mock_state = mock_price_data"
    by (simp add: mock_state_def)
  from generate_report_valid [OF vp, of env]
  show "generate_report env mock_state =
       ([Report_Ainvoke (report_messages (product_query mock_state)
           (round_to_double (129999 / 100)) (Finite (2822057854392511 / 2199023255552))
           (round_to_double (119999 / 100)) (round_to_double (134999 / 100)) (Finite 10)
           (platform_text env mock_price_data))],
        case report_ainvoke env (report_messages (product_query mock_state)
           (round_to_double (129999 / 100)) (Finite (2822057854392511 / 2199023255552))
           (round_to_double (119999 / 100)) (round_to_double (134999 / 100)) (Finite 10)
           (platform_text env mock_price_data)) of
          Inl e \<Rightarrow> Inl e
        | Inr content \<Rightarrow>
            Inr (mock_state\<lparr>final_report := content, confidence_score := Some (Finite 10)\<rparr>))"
    by (auto simp: pd median_mock mean_mock min_max_mock mock_amazon mock_walmart
        mock_bestbuy confidence_of_Suc simp del: py_min.simps py_max.simps
        split: sum.splits)
next
  show "\<bar>2822057854392511 / 2199023255552 - 128332 / 100\<bar> < (1 / 200 :: rat)"
    by simp
next
  show "format_f 2 (round_to_double (129999 / 100)) = ''1299.99''"
    by (simp only: mock_amazon printed_mock)
  show "format_f 2 (Finite (2822057854392511 / 2199023255552)) = ''1283.32''"
    by (simp only: printed_mock)
  show "format_f 2 (round_to_double (119999 / 100)) = ''1199.99''"
    by (simp only: mock_walmart printed_mock)
  show "format_f 2 (round_to_double (134999 / 100)) = ''1349.99''"
    by (simp only: mock_bestbuy printed_mock)
qed

theorem generate_report_statistics_witness:
  "valid_prices (price_data (mock_state\<lparr>price_data := four_prices\<rparr>)) =
     [Finite 10, Finite 40, Finite 30, Finite 20]
   \<and> fst (generate_report answering (mock_state\<lparr>price_data := four_prices\<rparr>)) =
       [Report_Ainvoke (report_messages (product_query mock_state)
          (Finite 25) (Finite 25) (Finite 10) (Finite 40) (Finite 10)
          (platform_text answering four_prices))]"
proof -
  let ?s = "mock_state\<lparr>price_data := four_prices\<rparr>"
  let ?vp = "[Finite 10, Finite 40, Finite 30, Finite 20]"
  have h: "valid_prices (price_data ?s) = ?vp \<and> ?vp \<noteq> []"
    by (simp add: valid_prices_four)
  have len: "length ?vp = 4"
    by simp
  have c4: "confidence_of 4 = Finite 10"
    by (simp add: confidence_of_def flt_def eval_double)
  from generate_report_statistics [of ?s ?vp answering]
  have "valid_prices (price_data ?s) = ?vp \<and> ?vp \<noteq> [] \<longrightarrow>
      (\<exists>med avg mn mx.
          generate_report answering ?s =
            ([Report_Ainvoke (report_messages (product_query ?s) med avg mn mx
                (confidence_of (length ?vp)) (platform_text answering (price_data ?s)))],
             case report_ainvoke answering (report_messages (product_query ?s) med avg mn mx
                (confidence_of (length ?vp)) (platform_text answering (price_data ?s))) of
               Inl e \<Rightarrow> Inl e
             | Inr content \<Rightarrow>
                 Inr (?s\<lparr>final_report := content,
                         confidence_score := Some (confidence_of (length ?vp))\<rparr>))
          \<and> median answering ?vp = Inr med \<and> mean ?vp = Inr avg
          \<and> py_min ?vp = Inr mn \<and> py_max ?vp = Inr mx
          \<and> (NaN \<notin> set ?vp \<longrightarrow>
                med = (if odd (length ?vp) then sort_key rank ?vp ! (length ?vp div 2)
                       else fdiv (fadd (sort_key rank ?vp ! (length ?vp div 2 - 1))
                                   (sort_key rank ?vp ! (length ?vp div 2))) 2)
                \<and> mn \<in> set ?vp \<and> (\<forall>x \<in> set ?vp. rank mn \<le> rank x)
                \<and> mx \<in> set ?vp \<and> (\<forall>x \<in> set ?vp. rank x \<le> rank mx))
          \<and> (list_all is_finite ?vp \<longrightarrow>
                avg = round_to_double (sum_list (map exact_value ?vp) / of_nat (length ?vp))))"
    by (rule conjunct1)
  with h obtain med avg mn mx where
    gr: "generate_report answering ?s =
            ([Report_Ainvoke (report_messages (product_query ?s) med avg mn mx
                (confidence_of (length ?vp)) (platform_text answering (price_data ?s)))],
             case report_ainvoke answering (report_messages (product_query ?s) med avg mn mx
                (confidence_of (length ?vp)) (platform_text answering (price_data ?s))) of
               Inl e \<Rightarrow> Inl e
             | Inr content \<Rightarrow>
                 Inr (?s\<lparr>final_report := content,
                         confidence_score := Some (confidence_of (length ?vp))\<rparr>))"
    and m: "median answering ?vp = Inr med" "mean ?vp = Inr avg"
      "py_min ?vp = Inr mn" "py_max ?vp = Inr mx"
    by blast
  have v: "med = Finite 25" "avg = Finite 25" "mn = Finite 10" "mx = Finite 40"
    using m statistics_four(1) [of answering] statistics_four(2-4) by simp_all
  have "fst (generate_report answering ?s) =
       [Report_Ainvoke (report_messages (product_query mock_state)
          (Finite 25) (Finite 25) (Finite 10) (Finite 40) (Finite 10)
          (platform_text answering four_prices))]"
    unfolding gr v len c4 by simp
  with h show ?thesis by simp
qed

text \<open>
  C10. An entry whose price is a zero (\<^verbatim>\<open>0.0\<close> or \<^verbatim>\<open>-0.0\<close>, both equal to \<^verbatim>\<open>0.0\<close>) is
  among the valid prices: the statistics functions are applied to a list that holds it
  and the confidence score counts it. Its line of the platform breakdown is the line
  without a price.
\<close>

theorem zero_price_counted_not_shown:
  assumes "price item = Some z"
    and "z = Finite 0 \<or> z = NegZero"
    and "price_data s = before @ item # after"
    and "vp = valid_prices before @ z # valid_prices after"
  shows "valid_prices (price_data s) = vp
    \<and> platform_text env (price_data s) =
        platform_text env before @
        ([CHR 0xE2, CHR 0x80, CHR 0xA2] @ '' '' @ str_title env (platform item) @
         '': No price found\<newline>'') @
        platform_text env after
    \<and> (\<exists>med avg mn mx.
          median env vp = Inr med \<and> mean vp = Inr avg
          \<and> py_min vp = Inr mn \<and> py_max vp = Inr mx
          \<and> fst (generate_report env s) =
              [Report_Ainvoke (report_messages (product_query s) med avg mn mx
                 (confidence_of (length (valid_prices before) + 1 +
                    length (valid_prices after)))
                 (platform_text env (price_data s)))])"
proof -
  have vp: "valid_prices (price_data s) = vp"
    using assms by (simp add: valid_prices_append valid_prices_Cons)
  have line: "platform_line env item =
      [CHR 0xE2, CHR 0x80, CHR 0xA2] @ '' '' @ str_title env (platform item) @
         '': No price found\<newline>''"
    using assms(1,2) by (auto simp: platform_line_def truthy_def)
  have pt: "platform_text env (price_data s) =
        platform_text env before @ platform_line env item @ platform_text env after"
    using assms(3) by (simp add: platform_text_concat)
  have ne: "vp \<noteq> []"
    using assms(4) by simp
  have len: "length vp = length (valid_prices before) + 1 + length (valid_prices after)"
    using assms(4) by simp
  from generate_report_valid [OF vp ne, of env]
  have "\<exists>med avg mn mx.
          median env vp = Inr med \<and> mean vp = Inr avg
          \<and> py_min vp = Inr mn \<and> py_max vp = Inr mx
          \<and> fst (generate_report env s) =
              [Report_Ainvoke (report_messages (product_query s) med avg mn mx
                 (confidence_of (length (valid_prices before) + 1 +
                    length (valid_prices after)))
                 (platform_text env (price_data s)))]"
    unfolding len by fastforce
  with vp pt line show ?thesis by simp
qed

theorem zero_price_counted_not_shown_witness:
  "price (priced ''amazon'' (Some (Finite 0))) = Some (Finite 0)
   \<and> valid_prices [priced ''amazon'' (Some (Finite 0)), priced ''walmart'' (Some (Finite 10))] =
       [Finite 0, Finite 10]
   \<and> platform_text answering
        [priced ''amazon'' (Some (Finite 0)), priced ''walmart'' (Some (Finite 10))] =
       [CHR 0xE2, CHR 0x80, CHR 0xA2] @ '' Amazon: No price found\<newline>'' @
       platform_text answering [priced ''walmart'' (Some (Finite 10))]
   \<and> fst (generate_report answering
            (mock_state\<lparr>price_data :=
               [priced ''amazon'' (Some (Finite 0)), priced ''walmart'' (Some (Finite 10))]\<rparr>)) =
       [Report_Ainvoke (report_messages (product_query mock_state)
          (Finite 5) (Finite 5) (Finite 0) (Finite 10)
          (Finite (8256599316845909 / 1125899906842624))
          (platform_text answering
             [priced ''amazon'' (Some (Finite 0)), priced ''walmart'' (Some (Finite 10))]))]"
proof -
  let ?item = "priced ''amazon'' (Some (Finite 0))"
  let ?after = "[priced ''walmart'' (Some (Finite 10))]"
  let ?s = "mock_state\<lparr>price_data := [?item, priced ''walmart'' (Some (Finite 10))]\<rparr>"
  have h1: "price ?item = Some (Finite 0)"
    by (simp add: priced_def)
  have h2: "Finite 0 = Finite 0 \<or> Finite 0 = NegZero"
    by simp
  have h3: "price_data ?s = [] @ ?item # ?after"
    by simp
  have h4: "[Finite 0, Finite 10] = valid_prices [] @ Finite 0 # valid_prices ?after"
    by (simp add: priced_def valid_prices_Cons valid_prices_Nil)
  have pe: "platform_text answering [] = []"
    by (simp add: platform_text_def)
  have pl: "str_title answering ''amazon'' = ''Amazon''"
    by (simp add: answering_def ascii_title_amazon)
  from zero_price_counted_not_shown [OF h1 h2 h3 h4, of answering]
  obtain med avg mn mx where
    vp: "valid_prices (price_data ?s) = [Finite 0, Finite 10]"
    and pt: "platform_text answering (price_data ?s) =
        platform_text answering [] @
        ([CHR 0xE2, CHR 0x80, CHR 0xA2] @ '' '' @ str_title answering (platform ?item) @
         '': No price found\<newline>'') @
        platform_text answering ?after"
    and m: "median answering [Finite 0, Finite 10] = Inr med"
      "mean [Finite 0, Finite 10] = Inr avg"
      "py_min [Finite 0, Finite 10] = Inr mn" "py_max [Finite 0, Finite 10] = Inr mx"
    and gr: "fst (generate_report answering ?s) =
              [Report_Ainvoke (report_messages (product_query ?s) med avg mn mx
                 (confidence_of (length (valid_prices []) + 1 +
                    length (valid_prices ?after)))
                 (platform_text answering (price_data ?s)))]"
    by blast
  have v: "med = Finite 5" "avg = Finite 5" "mn = Finite 0" "mx = Finite 10"
    using m statistics_zero_ten(1) [of answering] statistics_zero_ten(2-4) by simp_all
  have len: "length (valid_prices []) + 1 + length (valid_prices ?after) = 2"
    by (simp add: priced_def valid_prices_Cons valid_prices_Nil)
  have pa: "platform ?item = ''amazon''"
    by (simp add: priced_def)
  have g: "fst (generate_report answering ?s) =
       [Report_Ainvoke (report_messages (product_query mock_state)
          (Finite 5) (Finite 5) (Finite 0) (Finite 10)
          (Finite (8256599316845909 / 1125899906842624))
          (platform_text answering [?item, priced ''walmart'' (Some (Finite 10))]))]"
    unfolding gr v len confidence_of_2 by simp
  have t: "platform_text answering [?item, priced ''walmart'' (Some (Finite 10))] =
       [CHR 0xE2, CHR 0x80, CHR 0xA2] @ '' Amazon: No price found\<newline>'' @
       platform_text answering ?after"
    using pt by (simp add: pe pa pl)
  from h1 vp g t show ?thesis by simp
qed

section \<open>Claims about \<^verbatim>\<open>search_products\<close>\<close>

text \<open>
  C6. Whichever call of the \<^verbatim>\<open>try\<close> block of \<^verbatim>\<open>search_products\<close> raises (building the
  client, the tools or the agent, invoking the agent, the structured extraction), the
  node returns the state with \<^verbatim>\<open>error = "Product search failed: <cause>"\<close> and
  \<^verbatim>\<open>search_results\<close> empty, whatever \<^verbatim>\<open>search_results\<close> held before.
\<close>

theorem search_products_exception:
  "(let failed = s\<lparr>search_results := [], error := Some (''Product search failed: '' @ e)\<rparr>
    in (from_dict env = Inl e \<longrightarrow> snd (search_products env s) = failed)
     \<and> (\<forall>client. from_dict env = Inr client \<and> create_tools env client = Inl e
           \<longrightarrow> snd (search_products env s) = failed)
     \<and> (\<forall>client tools. from_dict env = Inr client \<and> create_tools env client = Inr tools
           \<and> create_react_agent env tools search_agent_prompt = Inl e
           \<longrightarrow> snd (search_products env s) = failed)
     \<and> (\<forall>client tools agent. from_dict env = Inr client \<and> create_tools env client = Inr tools
           \<and> create_react_agent env tools search_agent_prompt = Inr agent
           \<and> agent_ainvoke env agent (search_prompt (product_query s)) = Inl e
           \<longrightarrow> snd (search_products env s) = failed)
     \<and> (\<forall>client tools agent content.
           from_dict env = Inr client \<and> create_tools env client = Inr tools
           \<and> create_react_agent env tools search_agent_prompt = Inr agent
           \<and> agent_ainvoke env agent (search_prompt (product_query s)) = Inr content
           \<and> urls_ainvoke env (urls_prompt content) = Inl e
           \<longrightarrow> snd (search_products env s) = failed)
     \<and> (snd (search_body env (product_query s)) = Inl e
           \<longrightarrow> snd (search_products env s) = failed))"
proof -
  have raised: "snd (search_body env (product_query s)) = Inl e \<Longrightarrow>
      snd (search_products env s) =
        s\<lparr>search_results := [], error := Some (''Product search failed: '' @ e)\<rparr>"
    by (rule search_products_raised)
  show ?thesis
    unfolding Let_def
    by (intro conjI allI impI raised; simp add: search_body_raises_iff)
qed

theorem search_products_exception_witness:
  "urls_ainvoke (answering\<lparr>urls_ainvoke := (\<lambda>_. Inl ''malformed output'')\<rparr>)
       (urls_prompt ''found'') = Inl ''malformed output''
   \<and> snd (search_products (answering\<lparr>urls_ainvoke := (\<lambda>_. Inl ''malformed output'')\<rparr>)
        ((initial_state ''tv'')\<lparr>search_results := [(''amazon'', ''http://old'')]\<rparr>)) =
       (initial_state ''tv'')\<lparr>search_results := [],
          error := Some ''Product search failed: malformed output''\<rparr>"
proof -
  let ?env = "answering\<lparr>urls_ainvoke := (\<lambda>_. Inl ''malformed output'')\<rparr>"
  let ?s = "(initial_state ''tv'')\<lparr>search_results := [(''amazon'', ''http://old'')]\<rparr>"
  have h: "from_dict ?env = Inr () \<and> create_tools ?env () = Inr ()
           \<and> create_react_agent ?env () search_agent_prompt = Inr ()
           \<and> agent_ainvoke ?env () (search_prompt (product_query ?s)) = Inr ''found''
           \<and> urls_ainvoke ?env (urls_prompt ''found'') = Inl ''malformed output''"
    by (simp add: answering_def)
  show ?thesis
    using h search_products_exception [where s = ?s and e = "''malformed output''" and env = ?env]
    by (simp add: Let_def)
qed

text \<open>
  C8. When every call of \<^verbatim>\<open>search_products\<close> returns, \<^verbatim>\<open>search_results\<close> is assigned
  exactly the fields of the structured URL record that are not null, in field order; a
  null field gives no entry. A record with only \<^verbatim>\<open>amazon\<close> set gives the single entry
  for \<^verbatim>\<open>amazon\<close>.
\<close>

theorem search_products_drops_null_urls:
  assumes "from_dict env = Inr client"
    and "create_tools env client = Inr tools"
    and "create_react_agent env tools search_agent_prompt = Inr agent"
    and "agent_ainvoke env agent (search_prompt (product_query s)) = Inr content"
    and "urls_ainvoke env (urls_prompt content) = Inr url_response"
  shows "snd (search_products env s) =
           s\<lparr>search_results :=
                (case amazon url_response of None \<Rightarrow> [] | Some u \<Rightarrow> [(''amazon'', u)]) @
                (case walmart url_response of None \<Rightarrow> [] | Some u \<Rightarrow> [(''walmart'', u)]) @
                (case bestbuy url_response of None \<Rightarrow> [] | Some u \<Rightarrow> [(''bestbuy'', u)])\<rparr>
         \<and> (\<forall>a. amazon url_response = Some a \<and> walmart url_response = None
                 \<and> bestbuy url_response = None
               \<longrightarrow> search_results (snd (search_products env s)) = [(''amazon'', a)])"
proof -
  have "search_body env (product_query s) =
      ([From_Dict, Create_Tools, Create_React_Agent search_agent_prompt,
        Agent_Ainvoke (search_prompt (product_query s)),
        Structured_Ainvoke (urls_prompt content)], Inr (present_urls url_response))"
    using assms by (simp add: search_body_def)
  then have "snd (search_products env s) = s\<lparr>search_results := present_urls url_response\<rparr>"
    by (simp add: search_products_def)
  then show ?thesis
    by (auto simp: present_urls_def dict_items_def)
qed

theorem search_products_drops_null_urls_witness:
  "from_dict answering = Inr ()
   \<and> create_tools answering () = Inr ()
   \<and> create_react_agent answering () search_agent_prompt = Inr ()
   \<and> agent_ainvoke answering () (search_prompt (product_query (initial_state ''tv''))) = Inr ''found''
   \<and> urls_ainvoke answering (urls_prompt ''found'') =
       Inr \<lparr>amazon = Some ''http://a'', walmart = None, bestbuy = None\<rparr>
   \<and> snd (search_products answering (initial_state ''tv'')) =
       (initial_state ''tv'')\<lparr>search_results := [(''amazon'', ''http://a'')]\<rparr>"
proof -
  have h1: "from_dict answering = Inr ()"
    and h2: "create_tools answering () = Inr ()"
    and h3: "create_react_agent answering () search_agent_prompt = Inr ()"
    and h4: "agent_ainvoke answering () (search_prompt (product_query (initial_state ''tv''))) = Inr ''found''"
    and h5: "urls_ainvoke answering (urls_prompt ''found'') =
       Inr \<lparr>amazon = Some ''http://a'', walmart = None, bestbuy = None\<rparr>"
    by (simp_all add: answering_def)
  show ?thesis
    using h1 h2 h3 h4 h5 search_products_drops_null_urls [OF h1 h2 h3 h4 h5]
    by simp
qed

section \<open>Claims about \<^verbatim>\<open>extract_prices\<close>\<close>

text \<open>
  C5. For every state whose \<^verbatim>\<open>search_results\<close> is empty, \<^verbatim>\<open>extract_prices\<close> makes no
  external call (no client, tool or agent is built or invoked) and returns the state with
  \<^verbatim>\<open>price_data = []\<close> and \<^verbatim>\<open>error\<close> the message that no product URLs were found.
\<close>

theorem extract_prices_no_urls:
  assumes "search_results s = []"
  shows "extract_prices env s =
           ([], s\<lparr>price_data := [],
                  error := Some ''No product URLs found to extract prices from''\<rparr>)"
  using assms by (simp add: extract_prices_def)

theorem extract_prices_no_urls_witness:
  "search_results (initial_state ''iPhone 16 256GB'') = []
   \<and> extract_prices answering (initial_state ''iPhone 16 256GB'') =
       ([], (initial_state ''iPhone 16 256GB'')\<lparr>price_data := [],
              error := Some ''No product URLs found to extract prices from''\<rparr>)"
proof -
  have h: "search_results (initial_state ''iPhone 16 256GB'') = []"
    by (simp add: initial_state_def)
  show ?thesis
    using h extract_prices_no_urls [OF h, of answering] by simp
qed

text \<open>
  C3 (amended). For every non-empty \<^verbatim>\<open>search_results\<close>: when the client, the tools and
  the agent are built without an exception, \<^verbatim>\<open>extract_prices\<close> returns one record per
  entry of \<^verbatim>\<open>search_results\<close>, in its order, each with the platform and URL of its entry
  and determined by the calls for that platform alone; the agent is invoked once per
  platform, in order, whether or not an earlier platform raised; \<^verbatim>\<open>error\<close> is unchanged.
  When building them raises, \<^verbatim>\<open>price_data\<close> is empty and \<^verbatim>\<open>error\<close> is
  \<^verbatim>\<open>"Price extraction failed: <cause>"\<close>.
\<close>

theorem extract_prices_one_record_per_key:
  assumes "search_results s \<noteq> []"
  shows "(\<forall>client tools agent.
            from_dict env = Inr client \<and> create_tools env client = Inr tools
            \<and> create_react_agent env tools extraction_agent_prompt = Inr agent
            \<longrightarrow> map (\<lambda>item. (platform item, url item)) (price_data (snd (extract_prices env s)))
                  = search_results s
                \<and> price_data (snd (extract_prices env s)) =
                    map (\<lambda>(p, u). snd (extract_platform env agent p u)) (search_results s)
                \<and> filter is_agent_ainvoke (fst (extract_prices env s)) =
                    map (\<lambda>(p, u). Agent_Ainvoke (extraction_prompt p u)) (search_results s)
                \<and> error (snd (extract_prices env s)) = error s)
         \<and> (\<forall>e. from_dict env = Inl e
                 \<or> (\<exists>client. from_dict env = Inr client \<and>
                      (create_tools env client = Inl e
                       \<or> (\<exists>tools. create_tools env client = Inr tools \<and>
                            create_react_agent env tools extraction_agent_prompt = Inl e)))
               \<longrightarrow> snd (extract_prices env s) =
                     s\<lparr>price_data := [], error := Some (''Price extraction failed: '' @ e)\<rparr>)"
proof (intro conjI allI impI)
  fix client tools agent
  assume built: "from_dict env = Inr client \<and> create_tools env client = Inr tools
            \<and> create_react_agent env tools extraction_agent_prompt = Inr agent"
  then have eq: "extract_prices env s =
     ([From_Dict, Create_Tools, Create_React_Agent extraction_agent_prompt] @
        concat (map (\<lambda>(p, u). fst (extract_platform env agent p u)) (search_results s)),
      s\<lparr>price_data := map (\<lambda>(p, u). snd (extract_platform env agent p u)) (search_results s)\<rparr>)"
    using extract_prices_built [OF assms, of env client tools agent] by simp
  show "price_data (snd (extract_prices env s)) =
          map (\<lambda>(p, u). snd (extract_platform env agent p u)) (search_results s)"
    by (simp add: eq)
  show "error (snd (extract_prices env s)) = error s"
    by (simp add: eq)
  have "map (\<lambda>item. (platform item, url item))
          (map (\<lambda>(p, u). snd (extract_platform env agent p u)) results) = results" for results
    by (induction results) (auto simp: extract_platform_key)
  then show "map (\<lambda>item. (platform item, url item)) (price_data (snd (extract_prices env s)))
          = search_results s"
    by (simp add: eq)
  have "filter is_agent_ainvoke
          (concat (map (\<lambda>(p, u). fst (extract_platform env agent p u)) results)) =
        map (\<lambda>(p, u). Agent_Ainvoke (extraction_prompt p u)) results" for results
    by (induction results) (auto simp: extract_platform_agent_calls)
  then show "filter is_agent_ainvoke (fst (extract_prices env s)) =
          map (\<lambda>(p, u). Agent_Ainvoke (extraction_prompt p u)) (search_results s)"
    by (simp add: eq)
next
  fix e
  assume "from_dict env = Inl e
                 \<or> (\<exists>client. from_dict env = Inr client \<and>
                      (create_tools env client = Inl e
                       \<or> (\<exists>tools. create_tools env client = Inr tools \<and>
                            create_react_agent env tools extraction_agent_prompt = Inl e)))"
  then show "snd (extract_prices env s) =
                     s\<lparr>price_data := [], error := Some (''Price extraction failed: '' @ e)\<rparr>"
    by (rule extract_prices_setup_raised [OF assms])
qed

theorem extract_prices_one_record_per_key_witness:
  "search_results two_platforms \<noteq> []
   \<and> from_dict amazon_times_out = Inr () \<and> create_tools amazon_times_out () = Inr ()
   \<and> create_react_agent amazon_times_out () extraction_agent_prompt = Inr ()
   \<and> price_data (snd (extract_prices amazon_times_out two_platforms)) =
       [failure_record ''amazon'' ''http://a'' ''timeout'',
        success_record ''walmart'' ''http://w''
          \<lparr>ep_price = Some (Finite 5), ep_title = ''T'', ep_availability = ''In Stock''\<rparr>]"
proof -
  have h: "search_results two_platforms \<noteq> []"
    by (simp add: two_platforms_def)
  have b: "from_dict amazon_times_out = Inr () \<and> create_tools amazon_times_out () = Inr ()
   \<and> create_react_agent amazon_times_out () extraction_agent_prompt = Inr ()"
    by (simp add: amazon_times_out_def answering_def)
  have a: "snd (extract_platform amazon_times_out () ''amazon'' ''http://a'') =
      failure_record ''amazon'' ''http://a'' ''timeout''"
    by (simp add: extract_platform_def amazon_times_out_def)
  have w: "snd (extract_platform amazon_times_out () ''walmart'' ''http://w'') =
      success_record ''walmart'' ''http://w''
          \<lparr>ep_price = Some (Finite 5), ep_title = ''T'', ep_availability = ''In Stock''\<rparr>"
    by (simp add: extract_platform_def amazon_times_out_def answering_def
        extraction_prompts_differ)
  have sr: "search_results two_platforms = [(''amazon'', ''http://a''), (''walmart'', ''http://w'')]"
    by (simp add: two_platforms_def)
  show ?thesis
    using h b extract_prices_one_record_per_key [OF h, of amazon_times_out]
    by (simp add: sr a w)
qed

text \<open>
  C3 as stated fails: with one URL to extract from and a client that cannot be built,
  \<^verbatim>\<open>price_data\<close> has no record for the key.
\<close>

theorem extract_prices_one_record_per_key_counterexample:
  "search_results amazon_only \<noteq> []
   \<and> map platform (price_data (snd (extract_prices unreachable amazon_only))) \<noteq>
       map fst (search_results amazon_only)"
  by (simp add: amazon_only_def unreachable_def answering_def initial_state_def
      extract_prices_def)

text \<open>
  C7 (amended). Every record that \<^verbatim>\<open>extract_prices\<close> produces belongs to an entry
  \<open>(p, u)\<close> of \<^verbatim>\<open>search_results\<close>. When the agent call or the structured extraction for
  that platform raised \<open>e\<close>, it is the failure record
  \<^verbatim>\<open>{platform, price: None, title: "", url, availability: "Error extracting", error: e}\<close>,
  which meets the invariant of the specification. Otherwise it is the success record,
  carrying the price, title and availability that the structured extraction for that
  platform returned and no error; it meets the invariant exactly when that price is
  positive, or is null with the availability \<^verbatim>\<open>"Error extracting"\<close>.
\<close>

theorem extraction_record_shape:
  assumes "item \<in> set (price_data (snd (extract_prices env s)))"
  shows "\<exists>client tools agent p u.
      from_dict env = Inr client \<and> create_tools env client = Inr tools
      \<and> create_react_agent env tools extraction_agent_prompt = Inr agent
      \<and> (p, u) \<in> set (search_results s)
      \<and> ((\<exists>e. agent_ainvoke env agent (extraction_prompt p u) = Inl e
               \<and> item = \<lparr>platform = p, price = None, title = '''', url = u,
                          availability = ''Error extracting'', item_error = Some e\<rparr>
               \<and> spec_record_invariant item)
          \<or> (\<exists>content e.
               agent_ainvoke env agent (extraction_prompt p u) = Inr content
               \<and> price_ainvoke env (price_prompt p content) = Inl e
               \<and> item = \<lparr>platform = p, price = None, title = '''', url = u,
                          availability = ''Error extracting'', item_error = Some e\<rparr>
               \<and> spec_record_invariant item)
          \<or> (\<exists>content structured_data.
               agent_ainvoke env agent (extraction_prompt p u) = Inr content
               \<and> price_ainvoke env (price_prompt p content) = Inr structured_data
               \<and> item = \<lparr>platform = p, price = ep_price structured_data,
                          title = ep_title structured_data, url = u,
                          availability = ep_availability structured_data,
                          item_error = None\<rparr>
               \<and> (spec_record_invariant item \<longleftrightarrow>
                    (case ep_price structured_data of
                       None \<Rightarrow> ep_availability structured_data = ''Error extracting''
                     | Some x \<Rightarrow> flt (Finite 0) x))))"
proof -
  from extract_prices_items [OF assms]
  obtain client tools agent p u where b: "from_dict env = Inr client"
    "create_tools env client = Inr tools"
    "create_react_agent env tools extraction_agent_prompt = Inr agent"
    and pu: "(p, u) \<in> set (search_results s)"
    and item: "item = snd (extract_platform env agent p u)" by blast
  have inv_fail: "spec_record_invariant (failure_record p u e)" for e
    by (simp add: failure_record_def spec_record_invariant_def)
  have inv_ok: "spec_record_invariant (success_record p u sd) \<longleftrightarrow>
                    (case ep_price sd of
                       None \<Rightarrow> ep_availability sd = ''Error extracting''
                     | Some x \<Rightarrow> flt (Finite 0) x)" for sd
    by (auto simp: success_record_def spec_record_invariant_def split: option.splits)
  have "(\<exists>e. agent_ainvoke env agent (extraction_prompt p u) = Inl e
               \<and> item = \<lparr>platform = p, price = None, title = '''', url = u,
                          availability = ''Error extracting'', item_error = Some e\<rparr>
               \<and> spec_record_invariant item)
          \<or> (\<exists>content e.
               agent_ainvoke env agent (extraction_prompt p u) = Inr content
               \<and> price_ainvoke env (price_prompt p content) = Inl e
               \<and> item = \<lparr>platform = p, price = None, title = '''', url = u,
                          availability = ''Error extracting'', item_error = Some e\<rparr>
               \<and> spec_record_invariant item)
          \<or> (\<exists>content structured_data.
               agent_ainvoke env agent (extraction_prompt p u) = Inr content
               \<and> price_ainvoke env (price_prompt p content) = Inr structured_data
               \<and> item = \<lparr>platform = p, price = ep_price structured_data,
                          title = ep_title structured_data, url = u,
                          availability = ep_availability structured_data,
                          item_error = None\<rparr>
               \<and> (spec_record_invariant item \<longleftrightarrow>
                    (case ep_price structured_data of
                       None \<Rightarrow> ep_availability structured_data = ''Error extracting''
                     | Some x \<Rightarrow> flt (Finite 0) x)))"
    using extract_platform_cases [of env agent p u]
  proof (elim disjE exE conjE)
    fix e
    assume "agent_ainvoke env agent (extraction_prompt p u) = Inl e"
      and "snd (extract_platform env agent p u) = failure_record p u e"
    then show ?thesis
      using item inv_fail [of e] by (simp add: failure_record_def)
  next
    fix content e
    assume "agent_ainvoke env agent (extraction_prompt p u) = Inr content"
      and "price_ainvoke env (price_prompt p content) = Inl e"
      and "snd (extract_platform env agent p u) = failure_record p u e"
    then show ?thesis
      using item inv_fail [of e] by (simp add: failure_record_def)
  next
    fix content structured_data
    assume "agent_ainvoke env agent (extraction_prompt p u) = Inr content"
      and "price_ainvoke env (price_prompt p content) = Inr structured_data"
      and "snd (extract_platform env agent p u) = success_record p u structured_data"
    then show ?thesis
      using item inv_ok [of structured_data] by (simp add: success_record_def)
  qed
  with b pu show ?thesis by blast
qed

theorem extraction_record_shape_witness:
  "failure_record ''amazon'' ''http://a'' ''timeout''
     \<in> set (price_data (snd (extract_prices amazon_times_out two_platforms)))
   \<and> agent_ainvoke amazon_times_out () (extraction_prompt ''amazon'' ''http://a'') =
       Inl ''timeout''
   \<and> failure_record ''amazon'' ''http://a'' ''timeout'' =
       \<lparr>platform = ''amazon'', price = None, title = '''', url = ''http://a'',
        availability = ''Error extracting'', item_error = Some ''timeout''\<rparr>
   \<and> spec_record_invariant (failure_record ''amazon'' ''http://a'' ''timeout'')"
proof -
  have pd: "price_data (snd (extract_prices amazon_times_out two_platforms)) =
       [failure_record ''amazon'' ''http://a'' ''timeout'',
        success_record ''walmart'' ''http://w''
          \<lparr>ep_price = Some (Finite 5), ep_title = ''T'', ep_availability = ''In Stock''\<rparr>]"
    by (simp add: two_platforms_def initial_state_def amazon_times_out_def answering_def
        extract_prices_def extract_platform_def extraction_prompts_differ)
  have h: "failure_record ''amazon'' ''http://a'' ''timeout''
     \<in> set (price_data (snd (extract_prices amazon_times_out two_platforms)))"
    by (simp add: pd)
  have a: "agent_ainvoke amazon_times_out () (extraction_prompt ''amazon'' ''http://a'') =
       Inl ''timeout''"
    by (simp add: amazon_times_out_def)
  from extraction_record_shape [OF h]
  have "spec_record_invariant (failure_record ''amazon'' ''http://a'' ''timeout'')"
    by (auto simp: failure_record_def)
  with h a show ?thesis
    by (simp add: failure_record_def)
qed

text \<open>
  C7 as stated fails: when the structured extraction returns a null price with the default
  availability, the record has a null price, no error and the availability
  \<^verbatim>\<open>"Unknown"\<close>.
\<close>

theorem extraction_record_invariant_counterexample:
  "price_data (snd (extract_prices no_price_read amazon_only)) =
     [\<lparr>platform = ''amazon'', price = None, title = '''', url = ''http://a'',
       availability = ''Unknown'', item_error = None\<rparr>]
   \<and> \<not> spec_record_invariant
        \<lparr>platform = ''amazon'', price = None, title = '''', url = ''http://a'',
         availability = ''Unknown'', item_error = None\<rparr>"
  by (simp add: amazon_only_def no_price_read_def answering_def initial_state_def
      extract_prices_def extract_platform_def success_record_def spec_record_invariant_def)

section \<open>Claims about the \<^verbatim>\<open>error\<close> field across the nodes\<close>

text \<open>
  C2 (amended). The nodes do not read \<^verbatim>\<open>error\<close>. When \<^verbatim>\<open>search_products\<close> changed
  \<^verbatim>\<open>error\<close>, \<^verbatim>\<open>extract_prices\<close> on its result makes no external call, and returns it with
  \<^verbatim>\<open>price_data = []\<close> and \<^verbatim>\<open>error\<close> replaced by the message that no product URLs were
  found. When \<^verbatim>\<open>extract_prices\<close> changed \<^verbatim>\<open>error\<close>, \<^verbatim>\<open>generate_report\<close> on its result
  makes no external call, and returns it with \<^verbatim>\<open>final_report\<close> the no-prices message and
  \<^verbatim>\<open>confidence_score = 0.0\<close>, the other fields unchanged.
\<close>

theorem error_set_by_previous_step:
  "(error (snd (search_products env s)) \<noteq> error s \<longrightarrow>
      extract_prices env (snd (search_products env s)) =
        ([], (snd (search_products env s))\<lparr>price_data := [],
               error := Some ''No product URLs found to extract prices from''\<rparr>))
   \<and> (error (snd (extract_prices env s)) \<noteq> error s \<longrightarrow>
      generate_report env (snd (extract_prices env s)) =
        ([], Inr ((snd (extract_prices env s))\<lparr>final_report :=
                     [CHR 0xE2, CHR 0x9D, CHR 0x8C] @ '' No prices found for '' @
                     product_query s,
                   confidence_score := Some (Finite 0)\<rparr>)))"
proof (intro conjI impI)
  assume "error (snd (search_products env s)) \<noteq> error s"
  then have "search_results (snd (search_products env s)) = []"
    by (rule search_products_error_changed)
  then show "extract_prices env (snd (search_products env s)) =
        ([], (snd (search_products env s))\<lparr>price_data := [],
               error := Some ''No product URLs found to extract prices from''\<rparr>)"
    by (rule extract_prices_empty)
next
  assume "error (snd (extract_prices env s)) \<noteq> error s"
  then have "price_data (snd (extract_prices env s)) = []"
    by (rule extract_prices_error_changed)
  then show "generate_report env (snd (extract_prices env s)) =
        ([], Inr ((snd (extract_prices env s))\<lparr>final_report :=
                     [CHR 0xE2, CHR 0x9D, CHR 0x8C] @ '' No prices found for '' @
                     product_query s,
                   confidence_score := Some (Finite 0)\<rparr>))"
    by (simp add: generate_report_def valid_prices_Nil no_prices_report_def
        extract_prices_product_query)
qed

theorem error_set_by_previous_step_witness:
  "error (snd (search_products unreachable amazon_only)) \<noteq> error amazon_only
   \<and> fst (extract_prices unreachable (snd (search_products unreachable amazon_only))) = []
   \<and> error (snd (extract_prices unreachable amazon_only)) \<noteq> error amazon_only
   \<and> fst (generate_report unreachable (snd (extract_prices unreachable amazon_only))) = []"
proof -
  have h1: "error (snd (search_products unreachable amazon_only)) \<noteq> error amazon_only"
    by (simp add: unreachable_def answering_def amazon_only_def initial_state_def
        search_products_def search_body_def)
  have h2: "error (snd (extract_prices unreachable amazon_only)) \<noteq> error amazon_only"
    by (simp add: unreachable_def answering_def amazon_only_def initial_state_def
        extract_prices_def)
  show ?thesis
    using h1 h2 error_set_by_previous_step [of unreachable amazon_only]
    by simp
qed

text \<open>
  C2 as stated fails: after a failed search, \<^verbatim>\<open>extract_prices\<close> overwrites \<^verbatim>\<open>error\<close>,
  and \<^verbatim>\<open>generate_report\<close> then sets \<^verbatim>\<open>confidence_score\<close>, which was unset.
\<close>

theorem error_passed_through_counterexample:
  "error (snd (search_products unreachable (initial_state ''tv''))) =
     Some ''Product search failed: boom''
   \<and> error (snd (extract_prices unreachable
        (snd (search_products unreachable (initial_state ''tv''))))) =
     Some ''No product URLs found to extract prices from''
   \<and> confidence_score (snd (extract_prices unreachable
        (snd (search_products unreachable (initial_state ''tv''))))) = None
   \<and> map_sum id confidence_score (snd (generate_report unreachable
        (snd (extract_prices unreachable
          (snd (search_products unreachable (initial_state ''tv''))))))) = Inr (Some (Finite 0))"
  by (simp add: unreachable_def answering_def initial_state_def search_products_def
      search_body_def extract_prices_def generate_report_def valid_prices_Nil Let_def)

end
